theory Spec2Isabelle
  imports Complex_Main
begin

section \<open>Values, errors and the outside world\<close>

text \<open>
  The repository is a PayPal integration: \<^verbatim>\<open>src/lib/paypal.ts\<close> (token cache, order
  creation, capture, risk check, cancellation, webhook signature verification) and two
  route handlers, \<^verbatim>\<open>create-order/route.ts\<close> and \<^verbatim>\<open>webhook/route.ts\<close>.
  Every function is asynchronous and awaits each outbound call before it goes on, so
  a call is modelled as a function from the state before it to its outcome and the state
  after it.

  Values that the source reads out of parsed JSON without a type (\<^verbatim>\<open>any\<close>) are
  values of \<open>js\<close>. An object is the list of its own properties, read with \<open>map_of\<close>.
\<close>

datatype js =
    JUndefined
  | JNull
  | JBool bool
  | JNum rat
  | JStr string
  | JArr "js list"
  | JObj "(string \<times> js) list"

text \<open>
  What a \<^verbatim>\<open>throw\<close> carries. The source throws \<^verbatim>\<open>Error\<close> itself; \<^verbatim>\<open>fetch\<close>
  rejects with a \<^verbatim>\<open>TypeError\<close> on a transport failure, reading a property of
  \<^verbatim>\<open>null\<close> or \<^verbatim>\<open>undefined\<close> throws a \<^verbatim>\<open>TypeError\<close>, and \<^verbatim>\<open>.json()\<close> rejects
  with a \<^verbatim>\<open>SyntaxError\<close> on a body that is not JSON. Each carries its message.
\<close>

datatype error = Error string | TypeError string | SyntaxError string

fun message :: "error \<Rightarrow> string" where
  "message (Error m) = m"
| "message (TypeError m) = m"
| "message (SyntaxError m) = m"

text \<open>Truthiness, as \<^verbatim>\<open>!x\<close>, \<^verbatim>\<open>x && y\<close> and \<^verbatim>\<open>x || y\<close> test it.\<close>

fun truthy :: "js \<Rightarrow> bool" where
  "truthy JUndefined = False"
| "truthy JNull = False"
| "truthy (JBool b) = b"
| "truthy (JNum r) = (r \<noteq> 0)"
| "truthy (JStr s) = (s \<noteq> [])"
| "truthy (JArr xs) = True"
| "truthy (JObj kvs) = True"

text \<open>
  \<^verbatim>\<open>x.name\<close>, for the property names the source reads (none of them is a built-in
  property of a string, an array, a number or a boolean): a \<^verbatim>\<open>TypeError\<close> on
  \<^verbatim>\<open>null\<close> and \<^verbatim>\<open>undefined\<close>, the property of an object, \<^verbatim>\<open>undefined\<close>
  otherwise. The message is the one V8 gives, with the name in single quotes.
\<close>

definition quoted :: "string \<Rightarrow> string" where
  "quoted name = [CHR 0x27] @ name @ [CHR 0x27]"

fun get_prop :: "js \<Rightarrow> string \<Rightarrow> error + js" where
  "get_prop JUndefined name =
     Inl (TypeError (''Cannot read properties of undefined (reading '' @ quoted name @ '')''))"
| "get_prop JNull name =
     Inl (TypeError (''Cannot read properties of null (reading '' @ quoted name @ '')''))"
| "get_prop (JObj kvs) name =
     Inr (case map_of kvs name of None \<Rightarrow> JUndefined | Some v \<Rightarrow> v)"
| "get_prop x name = Inr JUndefined"

text \<open>\<^verbatim>\<open>x?.name\<close>: \<^verbatim>\<open>undefined\<close> where \<^verbatim>\<open>x.name\<close> would throw.\<close>

fun opt_prop :: "js \<Rightarrow> string \<Rightarrow> js" where
  "opt_prop (JObj kvs) name = (case map_of kvs name of None \<Rightarrow> JUndefined | Some v \<Rightarrow> v)"
| "opt_prop x name = JUndefined"

text \<open>
  \<^verbatim>\<open>x?.[0]\<close>: the first element of an array, the property \<^verbatim>\<open>"0"\<close> of an object, the
  first character of a string, \<^verbatim>\<open>undefined\<close> otherwise.
\<close>

fun opt_index0 :: "js \<Rightarrow> js" where
  "opt_index0 (JArr (v # vs)) = v"
| "opt_index0 (JObj kvs) = (case map_of kvs ''0'' of None \<Rightarrow> JUndefined | Some v \<Rightarrow> v)"
| "opt_index0 (JStr (c # cs)) = JStr [c]"
| "opt_index0 x = JUndefined"

text \<open>
  A \<^verbatim>\<open>number\<close> as \<^verbatim>\<open>parseFloat\<close> returns it and \<^verbatim>\<open><=\<close> compares it: every
  comparison with \<^verbatim>\<open>NaN\<close> is false.
\<close>

datatype number = NaN | NegInfinity | Num rat | PosInfinity

fun number_le :: "number \<Rightarrow> rat \<Rightarrow> bool" where
  "number_le NaN r = False"
| "number_le NegInfinity r = True"
| "number_le (Num a) r = (a \<le> r)"
| "number_le PosInfinity r = False"

text \<open>
  \<^verbatim>\<open>x - r\<close>, \<^verbatim>\<open>x * r\<close> for a positive \<open>r\<close>, \<^verbatim>\<open>r + x\<close> and \<^verbatim>\<open>r > x\<close> for a
  finite \<open>r\<close>: \<^verbatim>\<open>NaN\<close> and the infinities stay what they are. The finite values the
  source computes with are whole numbers well below \<open>2^53\<close>, where the arithmetic of
  doubles is exact.
\<close>

fun number_minus :: "number \<Rightarrow> rat \<Rightarrow> number" where
  "number_minus (Num a) r = Num (a - r)"
| "number_minus x r = x"

fun number_times :: "number \<Rightarrow> rat \<Rightarrow> number" where
  "number_times (Num a) r = Num (a * r)"
| "number_times x r = x"

fun number_plus :: "rat \<Rightarrow> number \<Rightarrow> number" where
  "number_plus r (Num a) = Num (r + a)"
| "number_plus r x = x"

fun greater_than :: "rat \<Rightarrow> number \<Rightarrow> bool" where
  "greater_than r NaN = False"
| "greater_than r NegInfinity = True"
| "greater_than r (Num a) = (r > a)"
| "greater_than r PosInfinity = False"

text \<open>
  The decimal digits of a number, as a template literal prints
  \<^verbatim>\<open>response.status\<close>.
\<close>

fun show_nat :: "nat \<Rightarrow> string" where
  "show_nat n =
     (if n < 10 then [char_of (48 + n)]
      else show_nat (n div 10) @ [char_of (48 + n mod 10)])"

declare show_nat.simps [simp del]

text \<open>
  The \<^verbatim>\<open>Response\<close> of \<^verbatim>\<open>fetch\<close>: \<open>json\<close> is what awaiting \<^verbatim>\<open>response.json()\<close>
  gives, the parsed body or the rejection. \<^verbatim>\<open>response.text()\<close> is awaited only on
  paths whose outcome is the same whether it resolves or rejects, and is left out.
\<close>

record 'a response =
  ok :: bool
  status :: nat
  statusText :: string
  json :: "error + 'a"

text \<open>
  The token cache. The source stores \<^verbatim>\<open>{...data, created_at: Date.now()}\<close>, where
  \<^verbatim>\<open>data\<close> is whatever the token endpoint's body parsed to: the annotation
  \<^verbatim>\<open>TokenCache\<close> is not checked when the code runs. The stored object is represented
  by the three properties the source reads from it: \<open>access_token\<close> and \<open>expires_in\<close>
  are those of the spread \<^verbatim>\<open>{...data}\<close> (\<^verbatim>\<open>undefined\<close> when \<^verbatim>\<open>data\<close> is not an
  object that has them, \<^verbatim>\<open>null\<close> included), \<open>created_at\<close> is the reading of the clock,
  in milliseconds.
\<close>

record TokenCache =
  access_token :: js
  expires_in :: js
  created_at :: int

text \<open>
  The outbound calls, with what the claims need of each: the credentials of the Basic
  authentication; the value put after \<^verbatim>\<open>Bearer\<close>; for an order creation the values of
  \<^verbatim>\<open>amount.value\<close>, \<^verbatim>\<open>amount.currency_code\<close>, \<^verbatim>\<open>description\<close> and \<^verbatim>\<open>payer\<close>
  in the body; the order id in the URL of a capture and of a cancellation; the six fields
  of the body of a verification.
\<close>

datatype request =
    TokenRequest string string
  | OrderCreateRequest js js js js js
  | OrderCaptureRequest js string
  | OrderCancelRequest js js
  | WebhookVerifyRequest js string js string string string string

text \<open>
  The environment: the module-level constants read from \<^verbatim>\<open>process.env\<close>, and the
  outside world. \<open>fetch_token\<close> and \<open>fetch\<close> answer a request given the requests made
  before it, so a world may answer the same request differently each time;
  \<open>Date_now\<close> and \<open>Math_random\<close> give the n-th reading of the clock and the n-th
  random draw; \<open>parseFloat\<close> is the built-in; \<open>ToString_other\<close> and \<open>ToNumber_other\<close>
  are the built-in conversions to a string (of a number, an array or an object, which may
  throw) and to a number (of a string, an array or an object).
\<close>

record env =
  PAYPAL_CLIENT_ID :: string
  PAYPAL_CLIENT_SECRET :: string
  PAYPAL_WEBHOOK_ID :: string
  fetch_token :: "request list \<Rightarrow> request \<Rightarrow> error + js response"
  fetch :: "request list \<Rightarrow> request \<Rightarrow> error + js response"
  Date_now :: "nat \<Rightarrow> int"
  Math_random :: "nat \<Rightarrow> rat"
  parseFloat :: "string \<Rightarrow> number"
  ToString_other :: "js \<Rightarrow> error + string"
  ToNumber_other :: "js \<Rightarrow> number"

text \<open>
  The conversion of a template literal, \<^verbatim>\<open>`${x}`\<close>, and of \<^verbatim>\<open>RegExp.test\<close>, and the
  conversion of the operand of \<^verbatim>\<open>-\<close>: fixed on the values for which the language fixes
  them in a line, the built-in otherwise.
\<close>

fun ToString :: "env \<Rightarrow> js \<Rightarrow> error + string" where
  "ToString e JUndefined = Inr ''undefined''"
| "ToString e JNull = Inr ''null''"
| "ToString e (JBool b) = Inr (if b then ''true'' else ''false'')"
| "ToString e (JStr s) = Inr s"
| "ToString e x = ToString_other e x"

fun ToNumber :: "env \<Rightarrow> js \<Rightarrow> number" where
  "ToNumber e JUndefined = NaN"
| "ToNumber e JNull = Num 0"
| "ToNumber e (JBool b) = Num (if b then 1 else 0)"
| "ToNumber e (JNum r) = Num r"
| "ToNumber e x = ToNumber_other e x"

text \<open>
  The state of the process: the module-level \<^verbatim>\<open>tokenCache\<close> (\<open>None\<close> for
  \<^verbatim>\<open>null\<close>), the outbound requests made so far, oldest first, and how many times the
  clock and the random generator have been read.
\<close>

record state =
  tokenCache :: "TokenCache option"
  fetches :: "request list"
  clock_reads :: nat
  random_draws :: nat

definition now :: "env \<Rightarrow> state \<Rightarrow> int \<times> state" where
  "now e s = (Date_now e (clock_reads s), s\<lparr>clock_reads := Suc (clock_reads s)\<rparr>)"

definition random :: "env \<Rightarrow> state \<Rightarrow> rat \<times> state" where
  "random e s = (Math_random e (random_draws s), s\<lparr>random_draws := Suc (random_draws s)\<rparr>)"

definition do_fetch_token :: "env \<Rightarrow> request \<Rightarrow> state \<Rightarrow> (error + js response) \<times> state" where
  "do_fetch_token e req s = (fetch_token e (fetches s) req, s\<lparr>fetches := fetches s @ [req]\<rparr>)"

definition do_fetch :: "env \<Rightarrow> request \<Rightarrow> state \<Rightarrow> (error + js response) \<times> state" where
  "do_fetch e req s = (fetch e (fetches s) req, s\<lparr>fetches := fetches s @ [req]\<rparr>)"

section \<open>The token cache\<close>

text \<open>
  \<^verbatim>\<open>const isExpired = Date.now() > (tokenCache.created_at + (tokenCache.expires_in - 60) * 1000)\<close>.
  When \<^verbatim>\<open>expires_in\<close> is not a number the subtraction converts it; when it is
  \<^verbatim>\<open>undefined\<close> the sum is \<^verbatim>\<open>NaN\<close> and the token never expires.
\<close>

definition isExpired :: "env \<Rightarrow> int \<Rightarrow> TokenCache \<Rightarrow> bool" where
  "isExpired e t c =
     greater_than (of_int t)
       (number_plus (of_int (created_at c))
          (number_times (number_minus (ToNumber e (expires_in c)) 60) 1000))"

text \<open>
  The body of the \<^verbatim>\<open>try\<close> block of \<^verbatim>\<open>getAccessToken\<close>. After a response with a
  success status whose body parses, the cache is assigned first and
  \<^verbatim>\<open>data.access_token\<close> is read second, which throws when \<^verbatim>\<open>data\<close> is \<^verbatim>\<open>null\<close>.
\<close>

definition cached :: "js \<Rightarrow> int \<Rightarrow> TokenCache" where
  "cached data t =
     \<lparr>access_token = opt_prop data ''access_token'', expires_in = opt_prop data ''expires_in'',
      created_at = t\<rparr>"

definition requestToken :: "env \<Rightarrow> state \<Rightarrow> (error + js) \<times> state" where
  "requestToken e s =
     (if PAYPAL_CLIENT_ID e = [] \<or> PAYPAL_CLIENT_SECRET e = []
      then (Inl (Error ''PayPal credentials not configured''), s)
      else
        (case do_fetch_token e (TokenRequest (PAYPAL_CLIENT_ID e) (PAYPAL_CLIENT_SECRET e)) s of
           (Inl err, s1) \<Rightarrow> (Inl err, s1)
         | (Inr response, s1) \<Rightarrow>
             if \<not> ok response
             then (Inl (Error (''Failed to get access token: '' @ show_nat (status response)
                               @ '' '' @ statusText response)), s1)
             else
               (case json response of
                  Inl err \<Rightarrow> (Inl err, s1)
                | Inr data \<Rightarrow>
                    (case now e s1 of
                       (t, s2) \<Rightarrow>
                         (let s3 = s2\<lparr>tokenCache := Some (cached data t)\<rparr> in
                          case get_prop data ''access_token'' of
                            Inl err \<Rightarrow> (Inl err, s3)
                          | Inr token \<Rightarrow> (Inr token, s3))))))"

text \<open>
  \<^verbatim>\<open>getAccessToken\<close>: the cached token while it is not expired, the \<^verbatim>\<open>try\<close> block
  otherwise, whose every error the \<^verbatim>\<open>catch\<close> replaces by one and the same.
\<close>

definition authFailed :: error where
  "authFailed = Error ''Failed to authenticate with PayPal''"

definition refreshToken :: "env \<Rightarrow> state \<Rightarrow> (error + js) \<times> state" where
  "refreshToken e s =
     (case requestToken e s of
        (Inl err, s1) \<Rightarrow> (Inl authFailed, s1)
      | (Inr tok, s1) \<Rightarrow> (Inr tok, s1))"

definition getAccessToken :: "env \<Rightarrow> state \<Rightarrow> (error + js) \<times> state" where
  "getAccessToken e s =
     (case tokenCache s of
        None \<Rightarrow> refreshToken e s
      | Some c \<Rightarrow>
          (case now e s of
             (t, s1) \<Rightarrow>
               if \<not> isExpired e t c then (Inr (access_token c), s1)
               else refreshToken e s1))"

section \<open>Orders\<close>

text \<open>
  \<^verbatim>\<open>createPayPalOrder\<close>. Its parameters are declared strings, but the route passes what
  it read from the request, so they are values of \<open>js\<close>; \<^verbatim>\<open>currency\<close> defaults to
  \<^verbatim>\<open>'USD'\<close> when it is \<^verbatim>\<open>undefined\<close>. The description is
  \<^verbatim>\<open>description || `Payment from ${email || 'customer'}`\<close>, whose template literal may
  throw, and the payer is \<^verbatim>\<open>email ? { email_address: email } : undefined\<close>; both are
  computed after the token is there and before the request is sent. The returned object
  \<^verbatim>\<open>{ id: orderData.id }\<close> is represented by its one field.
\<close>

definition order_description :: "env \<Rightarrow> js \<Rightarrow> js \<Rightarrow> error + js" where
  "order_description e email description =
     (if truthy description then Inr description
      else
        (case ToString e (if truthy email then email else JStr ''customer'') of
           Inl err \<Rightarrow> Inl err
         | Inr who \<Rightarrow> Inr (JStr (''Payment from '' @ who))))"

definition order_payer :: "js \<Rightarrow> js" where
  "order_payer email = (if truthy email then JObj [(''email_address'', email)] else JUndefined)"

definition createOrderAttempt ::
  "env \<Rightarrow> js \<Rightarrow> js \<Rightarrow> js \<Rightarrow> js \<Rightarrow> state \<Rightarrow> (error + js) \<times> state" where
  "createOrderAttempt e amount currency email description s =
     (case getAccessToken e s of
        (Inl err, s1) \<Rightarrow> (Inl err, s1)
      | (Inr accessToken, s1) \<Rightarrow>
          (case order_description e email description of
             Inl err \<Rightarrow> (Inl err, s1)
           | Inr described \<Rightarrow>
               (case do_fetch e (OrderCreateRequest accessToken amount
                                   (if currency = JUndefined then JStr ''USD'' else currency)
                                   described (order_payer email)) s1 of
                  (Inl err, s2) \<Rightarrow> (Inl err, s2)
                | (Inr response, s2) \<Rightarrow>
                    if \<not> ok response
                    then (Inl (Error (''Failed to create order: '' @ show_nat (status response)
                                      @ '' '' @ statusText response)), s2)
                    else
                      (case json response of
                         Inl err \<Rightarrow> (Inl err, s2)
                       | Inr orderData \<Rightarrow>
                           (case get_prop orderData ''id'' of
                              Inl err \<Rightarrow> (Inl err, s2)
                            | Inr order_id \<Rightarrow> (Inr order_id, s2))))))"

definition createPayPalOrder ::
  "env \<Rightarrow> js \<Rightarrow> js \<Rightarrow> js \<Rightarrow> js \<Rightarrow> state \<Rightarrow> (error + js) \<times> state" where
  "createPayPalOrder e amount currency email description s =
     (case createOrderAttempt e amount currency email description s of
        (Inl err, s1) \<Rightarrow> (Inl (Error ''Failed to create PayPal order''), s1)
      | (Inr order_id, s1) \<Rightarrow> (Inr order_id, s1))"

text \<open>
  The validation of \<^verbatim>\<open>capturePayPalOrder\<close>:
  \<^verbatim>\<open>captureData.purchase_units?.[0]\<close>, then \<^verbatim>\<open>purchaseUnit?.payments?.captures?.[0]\<close>.
\<close>

definition first_capture :: "js \<Rightarrow> error + js" where
  "first_capture captureData =
     (case get_prop captureData ''purchase_units'' of
        Inl err \<Rightarrow> Inl err
      | Inr purchase_units \<Rightarrow>
          Inr (opt_index0 (opt_prop (opt_prop (opt_index0 purchase_units) ''payments'') ''captures'')))"

text \<open>
  The object returned on success. Where it is built, \<^verbatim>\<open>captureData\<close> and \<^verbatim>\<open>capture\<close>
  have both had a property read without a throw, so \<^verbatim>\<open>captureData.id\<close>,
  \<^verbatim>\<open>capture.id\<close>, \<^verbatim>\<open>capture.status\<close>, \<^verbatim>\<open>captureData.payer\<close> and \<^verbatim>\<open>capture.amount\<close>
  are read with \<open>opt_prop\<close> (lemma \<open>get_prop_again\<close> below).
\<close>

definition captureSuccess :: "js \<Rightarrow> js \<Rightarrow> js" where
  "captureSuccess captureData capture =
     JObj [(''success'', JBool True),
           (''orderId'', opt_prop captureData ''id''),
           (''captureId'', opt_prop capture ''id''),
           (''status'', opt_prop capture ''status''),
           (''payerEmail'', opt_prop (opt_prop captureData ''payer'') ''email_address''),
           (''amount'', opt_prop (opt_prop capture ''amount'') ''value''),
           (''currency'', opt_prop (opt_prop capture ''amount'') ''currency_code'')]"

definition captureNotCompleted :: error where
  "captureNotCompleted = Error ''Payment capture was not completed''"

definition validateCapture :: "js \<Rightarrow> error + js" where
  "validateCapture captureData =
     (case first_capture captureData of
        Inl err \<Rightarrow> Inl err
      | Inr capture \<Rightarrow>
          if \<not> truthy capture then Inl captureNotCompleted
          else
            (case get_prop capture ''status'' of
               Inl err \<Rightarrow> Inl err
             | Inr capture_status \<Rightarrow>
                 if capture_status \<noteq> JStr ''COMPLETED'' then Inl captureNotCompleted
                 else Inr (captureSuccess captureData capture)))"

definition captureAttempt :: "env \<Rightarrow> string \<Rightarrow> state \<Rightarrow> (error + js) \<times> state" where
  "captureAttempt e orderID s =
     (case getAccessToken e s of
        (Inl err, s1) \<Rightarrow> (Inl err, s1)
      | (Inr accessToken, s1) \<Rightarrow>
          (case do_fetch e (OrderCaptureRequest accessToken orderID) s1 of
             (Inl err, s2) \<Rightarrow> (Inl err, s2)
           | (Inr response, s2) \<Rightarrow>
               if \<not> ok response
               then (Inl (Error (''Failed to capture order: '' @ show_nat (status response)
                                 @ '' '' @ statusText response)), s2)
               else
                 (case json response of
                    Inl err \<Rightarrow> (Inl err, s2)
                  | Inr captureData \<Rightarrow> (validateCapture captureData, s2))))"

text \<open>The object the \<^verbatim>\<open>catch\<close> of \<^verbatim>\<open>capturePayPalOrder\<close> returns, whatever was thrown.\<close>

definition captureFailed :: "string \<Rightarrow> js" where
  "captureFailed orderID =
     JObj [(''success'', JBool False), (''orderId'', JStr orderID), (''status'', JStr ''FAILED'')]"

definition capturePayPalOrder :: "env \<Rightarrow> string \<Rightarrow> state \<Rightarrow> js \<times> state" where
  "capturePayPalOrder e orderID s =
     (case captureAttempt e orderID s of
        (Inl err, s1) \<Rightarrow> (captureFailed orderID, s1)
      | (Inr result, s1) \<Rightarrow> (result, s1))"

section \<open>Risk check and cancellation\<close>

text \<open>
  \<^verbatim>\<open>callRiskAPI\<close>: \<^verbatim>\<open>parseFloat(amount) <= 10.00\<close> approves; otherwise
  \<^verbatim>\<open>Math.random() > 0.05\<close> decides, where \<^verbatim>\<open>0.05\<close> is the double nearest to it,
  \<open>3602879701896397 / 2^56\<close>. Its parameters are declared strings, and on strings
  nothing in its \<^verbatim>\<open>try\<close> block throws. The order id is only logged.
\<close>

definition callRiskAPI :: "env \<Rightarrow> js \<Rightarrow> string \<Rightarrow> state \<Rightarrow> bool \<times> state" where
  "callRiskAPI e orderID amount s =
     (let numericAmount = parseFloat e amount in
      if number_le numericAmount 10 then (True, s)
      else
        (case random e s of
           (r, s1) \<Rightarrow>
             (let shouldApprove = (r > 3602879701896397 / 72057594037927936) in
              (shouldApprove, s1))))"

text \<open>
  \<^verbatim>\<open>cancelPayPalOrder\<close>: the \<^verbatim>\<open>try\<close> block, and the function, which returns nothing
  and whose \<^verbatim>\<open>catch\<close> only logs.
\<close>

definition cancelAttempt :: "env \<Rightarrow> js \<Rightarrow> state \<Rightarrow> (error + unit) \<times> state" where
  "cancelAttempt e orderID s =
     (case getAccessToken e s of
        (Inl err, s1) \<Rightarrow> (Inl err, s1)
      | (Inr accessToken, s1) \<Rightarrow>
          (case do_fetch e (OrderCancelRequest accessToken orderID) s1 of
             (Inl err, s2) \<Rightarrow> (Inl err, s2)
           | (Inr response, s2) \<Rightarrow> (Inr (), s2)))"

definition cancelPayPalOrder :: "env \<Rightarrow> js \<Rightarrow> state \<Rightarrow> state" where
  "cancelPayPalOrder e orderID s = snd (cancelAttempt e orderID s)"

section \<open>Webhook signature verification\<close>

definition verifyAttempt ::
  "env \<Rightarrow> string \<Rightarrow> js \<Rightarrow> string \<Rightarrow> string \<Rightarrow> string \<Rightarrow> string \<Rightarrow> state \<Rightarrow> (error + bool) \<times> state" where
  "verifyAttempt e webhookId webhookEvent certUrl transmissionId transmissionTime transmissionSig s =
     (case getAccessToken e s of
        (Inl err, s1) \<Rightarrow> (Inl err, s1)
      | (Inr accessToken, s1) \<Rightarrow>
          (case do_fetch e (WebhookVerifyRequest accessToken webhookId webhookEvent certUrl
                              transmissionId transmissionTime transmissionSig) s1 of
             (Inl err, s2) \<Rightarrow> (Inl err, s2)
           | (Inr response, s2) \<Rightarrow>
               if \<not> ok response then (Inr False, s2)
               else
                 (case json response of
                    Inl err \<Rightarrow> (Inl err, s2)
                  | Inr verificationData \<Rightarrow>
                      (case get_prop verificationData ''verification_status'' of
                         Inl err \<Rightarrow> (Inl err, s2)
                       | Inr verification_status \<Rightarrow>
                           (Inr (verification_status = JStr ''SUCCESS''), s2)))))"

definition verifyWebhookSignature ::
  "env \<Rightarrow> string \<Rightarrow> js \<Rightarrow> string \<Rightarrow> string \<Rightarrow> string \<Rightarrow> string \<Rightarrow> state \<Rightarrow> bool \<times> state" where
  "verifyWebhookSignature e webhookId webhookEvent certUrl transmissionId transmissionTime
       transmissionSig s =
     (case verifyAttempt e webhookId webhookEvent certUrl transmissionId transmissionTime
             transmissionSig s of
        (Inl err, s1) \<Rightarrow> (False, s1)
      | (Inr b, s1) \<Rightarrow> (b, s1))"

section \<open>The create-order route\<close>

text \<open>
  \<open>request_json\<close> is what awaiting \<^verbatim>\<open>request.json()\<close> gives: the rejection, or the
  parsed body, any JSON value. A response is the object passed to \<^verbatim>\<open>NextResponse.json\<close>
  and the HTTP status, 200 when none is given.
\<close>

type_synonym next_response = "js \<times> nat"

text \<open>
  \<^verbatim>\<open>const { amount, currency = 'USD', email, description } = body\<close>: a \<^verbatim>\<open>TypeError\<close>
  when the body is \<^verbatim>\<open>null\<close> (or \<^verbatim>\<open>undefined\<close>), the four properties otherwise, each
  \<^verbatim>\<open>undefined\<close> when the body has none of that name.
\<close>

definition destructure :: "js \<Rightarrow> error + js \<times> js \<times> js \<times> js" where
  "destructure body =
     (if body = JNull \<or> body = JUndefined
      then Inl (TypeError (''Cannot destructure property '' @ quoted ''amount'' @ '' of ''
                           @ quoted ''body'' @ '' as it is ''
                           @ (if body = JNull then ''null'' else ''undefined'') @ ''.''))
      else Inr (opt_prop body ''amount'',
                (if opt_prop body ''currency'' = JUndefined then JStr ''USD''
                 else opt_prop body ''currency''),
                opt_prop body ''email'',
                opt_prop body ''description''))"

text \<open>
  The log line \<^verbatim>\<open>`[CREATE ORDER] Amount: ${amount}, Currency: ${currency}, Email: ${email}`\<close>
  converts the three values in turn and throws where a conversion throws.
\<close>

definition log_line :: "env \<Rightarrow> js \<Rightarrow> js \<Rightarrow> js \<Rightarrow> error + unit" where
  "log_line e amount currency email =
     (case ToString e amount of
        Inl err \<Rightarrow> Inl err
      | Inr a \<Rightarrow>
          (case ToString e currency of
             Inl err \<Rightarrow> Inl err
           | Inr c \<Rightarrow> (case ToString e email of Inl err \<Rightarrow> Inl err | Inr m \<Rightarrow> Inr ())))"

text \<open>\<^verbatim>\<open>/^\d+(\.\d{2})?$/\<close> on a string: digits, then nothing or a dot and two digits.\<close>

definition is_digit :: "char \<Rightarrow> bool" where
  "is_digit c = (c \<in> set ''0123456789'')"

definition amount_pattern :: "string \<Rightarrow> bool" where
  "amount_pattern amount =
     (takeWhile is_digit amount \<noteq> [] \<and>
      (case dropWhile is_digit amount of
         [] \<Rightarrow> True
       | [p, a, b] \<Rightarrow> p = CHR ''.'' \<and> is_digit a \<and> is_digit b
       | _ \<Rightarrow> False))"

text \<open>
  \<^verbatim>\<open>email.includes('@')\<close> on a truthy value: the test of a string, the test of an
  array, and a \<^verbatim>\<open>TypeError\<close> on anything else, which has no function of that name.
\<close>

fun includes_at :: "js \<Rightarrow> error + bool" where
  "includes_at (JStr s) = Inr (CHR ''@'' \<in> set s)"
| "includes_at (JArr xs) = Inr (JStr ''@'' \<in> set xs)"
| "includes_at x = Inl (TypeError ''email.includes is not a function'')"

text \<open>The message \<^verbatim>\<open>Invalid amount format. Use format like "10.00"\<close>, with its quotes.\<close>

definition invalidAmountFormat :: string where
  "invalidAmountFormat =
     ''Invalid amount format. Use format like '' @ [CHR 0x22] @ ''10.00'' @ [CHR 0x22]"

definition failure :: "string \<Rightarrow> js" where
  "failure msg = JObj [(''success'', JBool False), (''error'', JStr msg)]"

definition riskRejected :: next_response where
  "riskRejected = (failure ''Transaction not approved due to risk assessment'', 403)"

text \<open>
  What follows the validation: order creation, risk check, cancellation on a denial.
  \<^verbatim>\<open>callRiskAPI\<close> uses the amount only as a string, the one it converted to in the
  validation.
\<close>

definition createAndAssess ::
  "env \<Rightarrow> js \<Rightarrow> string \<Rightarrow> js \<Rightarrow> js \<Rightarrow> js \<Rightarrow> state
     \<Rightarrow> (error + next_response) \<times> state" where
  "createAndAssess e amount amount_text currency email description s =
     (case createPayPalOrder e amount currency email description s of
        (Inl err, s1) \<Rightarrow> (Inl err, s1)
      | (Inr order_id, s1) \<Rightarrow>
          (case callRiskAPI e order_id amount_text s1 of
             (isApproved, s2) \<Rightarrow>
               if \<not> isApproved
               then (Inr riskRejected, cancelPayPalOrder e order_id s2)
               else (Inr (JObj [(''success'', JBool True), (''orderID'', order_id)], 200), s2)))"

text \<open>The validation of the route, from the log line on.\<close>

definition validateAndCreate ::
  "env \<Rightarrow> js \<Rightarrow> js \<Rightarrow> js \<Rightarrow> js \<Rightarrow> state \<Rightarrow> (error + next_response) \<times> state" where
  "validateAndCreate e amount currency email description s =
     (case log_line e amount currency email of
        Inl err \<Rightarrow> (Inl err, s)
      | Inr u \<Rightarrow>
          (case ToString e amount of
             Inl err \<Rightarrow> (Inl err, s)
           | Inr amount_text \<Rightarrow>
               if \<not> amount_pattern amount_text
               then (Inr (failure invalidAmountFormat, 400), s)
               else if \<not> truthy email
               then createAndAssess e amount amount_text currency email description s
               else
                 (case includes_at email of
                    Inl err \<Rightarrow> (Inl err, s)
                  | Inr has_at \<Rightarrow>
                      if \<not> has_at then (Inr (failure ''Invalid email format'', 400), s)
                      else createAndAssess e amount amount_text currency email description s)))"

text \<open>The body of the \<^verbatim>\<open>try\<close> block of the route.\<close>

definition createOrderRoute ::
  "env \<Rightarrow> error + js \<Rightarrow> state \<Rightarrow> (error + next_response) \<times> state" where
  "createOrderRoute e request_json s =
     (case request_json of
        Inl err \<Rightarrow> (Inl err, s)
      | Inr body \<Rightarrow>
          (case destructure body of
             Inl err \<Rightarrow> (Inl err, s)
           | Inr (amount, currency, email, description) \<Rightarrow>
               if \<not> truthy amount then (Inr (failure ''Amount is required'', 400), s)
               else validateAndCreate e amount currency email description s))"

text \<open>
  The route: the \<^verbatim>\<open>catch\<close> answers 500 with
  \<^verbatim>\<open>error.message || 'Failed to create PayPal order'\<close>.
\<close>

definition POST_create_order :: "env \<Rightarrow> error + js \<Rightarrow> state \<Rightarrow> next_response \<times> state" where
  "POST_create_order e request_json s =
     (case createOrderRoute e request_json s of
        (Inl err, s1) \<Rightarrow>
          ((failure (if message err \<noteq> [] then message err else ''Failed to create PayPal order''),
            500), s1)
      | (Inr res, s1) \<Rightarrow> (res, s1))"

section \<open>The webhook route\<close>

text \<open>
  A webhook request: \<^verbatim>\<open>request.headers.get\<close> as a map from the lower-case header
  name (\<open>None\<close> for \<^verbatim>\<open>null\<close>), and what awaiting \<^verbatim>\<open>request.json()\<close> gives.
\<close>

record webhook_request =
  headers :: "string \<Rightarrow> string option"
  webhook_json :: "error + js"

text \<open>Truthiness of what \<^verbatim>\<open>request.headers.get\<close> returns, a string or \<^verbatim>\<open>null\<close>.\<close>

fun truthy_str :: "string option \<Rightarrow> bool" where
  "truthy_str None = False"
| "truthy_str (Some s) = (s \<noteq> [])"

text \<open>
  The \<^verbatim>\<open>switch\<close> on \<^verbatim>\<open>webhookEvent.event_type\<close>, which only logs: the four handled
  event types read \<^verbatim>\<open>webhookEvent.resource.id\<close>, a \<^verbatim>\<open>TypeError\<close> when the resource is
  \<^verbatim>\<open>null\<close> or \<^verbatim>\<open>undefined\<close>; the other reads of the capture are optional or follow
  \<^verbatim>\<open>capture.id\<close>.
\<close>

definition handled_event_types :: "js list" where
  "handled_event_types =
     [JStr ''CHECKOUT.ORDER.APPROVED'', JStr ''PAYMENT.CAPTURE.COMPLETED'',
      JStr ''PAYMENT.CAPTURE.REFUNDED'', JStr ''PAYMENT.CAPTURE.REVERSED'']"

definition dispatchEvent :: "js \<Rightarrow> error + unit" where
  "dispatchEvent webhookEvent =
     (case get_prop webhookEvent ''event_type'' of
        Inl err \<Rightarrow> Inl err
      | Inr event_type \<Rightarrow>
          if event_type \<in> set handled_event_types
          then
            (case get_prop webhookEvent ''resource'' of
               Inl err \<Rightarrow> Inl err
             | Inr resource \<Rightarrow>
                 (case get_prop resource ''id'' of Inl err \<Rightarrow> Inl err | Inr resource_id \<Rightarrow> Inr ()))
          else Inr ())"

text \<open>
  The body of the \<^verbatim>\<open>try\<close> block of the route. The fifth header,
  \<^verbatim>\<open>paypal-auth-algorithm\<close>, is read into \<^verbatim>\<open>authAlgorithm\<close> and used nowhere. The log
  line before the verification reads \<^verbatim>\<open>webhookEvent.event_type\<close>.
\<close>

definition webhookRoute :: "env \<Rightarrow> webhook_request \<Rightarrow> state \<Rightarrow> (error + next_response) \<times> state" where
  "webhookRoute e request s =
     (let transmissionId = headers request ''paypal-transmission-id'';
          transmissionTime = headers request ''paypal-transmission-time'';
          certUrl = headers request ''paypal-cert-url'';
          transmissionSig = headers request ''paypal-transmission-sig'';
          authAlgorithm = headers request ''paypal-auth-algorithm''
      in
        if \<not> truthy_str transmissionId \<or> \<not> truthy_str transmissionTime
           \<or> \<not> truthy_str certUrl \<or> \<not> truthy_str transmissionSig
        then (Inr (JObj [(''error'', JStr ''Missing webhook headers'')], 400), s)
        else
          (case webhook_json request of
             Inl err \<Rightarrow> (Inl err, s)
           | Inr webhookEvent \<Rightarrow>
               (case get_prop webhookEvent ''event_type'' of
                  Inl err \<Rightarrow> (Inl err, s)
                | Inr event_type \<Rightarrow>
                    (case verifyWebhookSignature e (PAYPAL_WEBHOOK_ID e) webhookEvent (the certUrl)
                            (the transmissionId) (the transmissionTime) (the transmissionSig) s of
                       (isValid, s1) \<Rightarrow>
                         if \<not> isValid
                         then (Inr (JObj [(''error'', JStr ''Invalid webhook signature'')], 401), s1)
                         else
                           (case dispatchEvent webhookEvent of
                              Inl err \<Rightarrow> (Inl err, s1)
                            | Inr u \<Rightarrow> (Inr (JObj [(''success'', JBool True)], 200), s1))))))"

definition POST_webhook :: "env \<Rightarrow> webhook_request \<Rightarrow> state \<Rightarrow> next_response \<times> state" where
  "POST_webhook e request s =
     (case webhookRoute e request s of
        (Inl err, s1) \<Rightarrow>
          ((JObj [(''error'',
                   JStr (if message err \<noteq> [] then message err else ''Webhook processing failed''))],
            500), s1)
      | (Inr res, s1) \<Rightarrow> (res, s1))"

section \<open>Notions used in the statements\<close>

text \<open>
  The state after the test of the cache (one reading of the clock when a token is cached),
  whether that test sends \<^verbatim>\<open>getAccessToken\<close> to the token endpoint, whether both
  credentials are set, and the request the token endpoint then receives.
\<close>

definition cache_check :: "env \<Rightarrow> state \<Rightarrow> state" where
  "cache_check e s = (case tokenCache s of None \<Rightarrow> s | Some c \<Rightarrow> snd (now e s))"

definition needs_refresh :: "env \<Rightarrow> state \<Rightarrow> bool" where
  "needs_refresh e s =
     (case tokenCache s of None \<Rightarrow> True | Some c \<Rightarrow> isExpired e (fst (now e s)) c)"

definition configured :: "env \<Rightarrow> bool" where
  "configured e = (PAYPAL_CLIENT_ID e \<noteq> [] \<and> PAYPAL_CLIENT_SECRET e \<noteq> [])"

definition tokenRequest :: "env \<Rightarrow> request" where
  "tokenRequest e = TokenRequest (PAYPAL_CLIENT_ID e) (PAYPAL_CLIENT_SECRET e)"

text \<open>
  The \<^verbatim>\<open>catch\<close> of the create-order route as a function of the outcome of its
  \<^verbatim>\<open>try\<close> block; the test of the four headers that the webhook route makes, and its
  answer when the test fails.
\<close>

definition answer_of :: "(error + next_response) \<times> state \<Rightarrow> next_response \<times> state" where
  "answer_of r = (case r of
        (Inl err, s1) \<Rightarrow>
          ((failure (if message err \<noteq> [] then message err else ''Failed to create PayPal order''),
            500), s1)
      | (Inr res, s1) \<Rightarrow> (res, s1))"


definition currency_of :: "js \<Rightarrow> js" where
  "currency_of body =
     (if opt_prop body ''currency'' = JUndefined then JStr ''USD'' else opt_prop body ''currency'')"

definition four_headers :: "webhook_request \<Rightarrow> bool" where
  "four_headers request =
     (truthy_str (headers request ''paypal-transmission-id'')
      \<and> truthy_str (headers request ''paypal-transmission-time'')
      \<and> truthy_str (headers request ''paypal-cert-url'')
      \<and> truthy_str (headers request ''paypal-transmission-sig''))"

definition missingHeaders :: next_response where
  "missingHeaders = (JObj [(''error'', JStr ''Missing webhook headers'')], 400)"

section \<open>Example worlds\<close>

text \<open>
  Concrete environments and states on which the theorems are instantiated: a world in
  which every endpoint answers as the processor documents, and variants of it.
  \<open>decimal_number\<close> is the value of \<^verbatim>\<open>parseFloat\<close> on an unsigned decimal literal
  whose value is a double, such as \<^verbatim>\<open>10.00\<close> and \<^verbatim>\<open>500.00\<close>; the working
  world converts a whole number to its digits and an object without a \<^verbatim>\<open>toString\<close> of
  its own to \<^verbatim>\<open>[object Object]\<close>.
\<close>

definition digits_val :: "string \<Rightarrow> nat" where
  "digits_val ds = foldl (\<lambda>n c. 10 * n + (of_char c - 48)) 0 ds"

definition decimal_number :: "string \<Rightarrow> number" where
  "decimal_number a =
     (let ip = takeWhile is_digit a;
          fp = (case dropWhile is_digit a of
                  [] \<Rightarrow> []
                | c # cs \<Rightarrow> if c = CHR ''.'' then takeWhile is_digit cs else [])
      in if ip = [] \<and> fp = [] then NaN
         else Num (of_nat (digits_val ip) + of_nat (digits_val fp) / 10 ^ length fp))"

definition issued :: js where
  "issued =
     JObj [(''scope'', JStr ''https://uri.paypal.com/services/payments/payment''),
           (''access_token'', JStr ''A21AAFEpH4PsADK7qSS7pSRsgz''),
           (''token_type'', JStr ''Bearer''),
           (''expires_in'', JNum 32400)]"

definition completedCapture :: js where
  "completedCapture =
     JObj [(''id'', JStr ''5O190127TN364715T''),
           (''status'', JStr ''COMPLETED''),
           (''payer'', JObj [(''email_address'', JStr ''buyer@example.com'')]),
           (''purchase_units'',
            JArr [JObj [(''payments'',
              JObj [(''captures'',
                JArr [JObj [(''id'', JStr ''3C679366HH908993F''),
                            (''status'', JStr ''COMPLETED''),
                            (''amount'', JObj [(''currency_code'', JStr ''USD''),
                                              (''value'', JStr ''10.00'')])]])])]])]"

definition answer :: "nat \<Rightarrow> string \<Rightarrow> js \<Rightarrow> error + js response" where
  "answer code txt b = Inr \<lparr>ok = (200 \<le> code \<and> code < 300), status = code, statusText = txt, json = Inr b\<rparr>"

text \<open>
  The endpoints other than the token endpoint, which is asked through \<open>fetch_token\<close>: an
  order is created, its capture is completed, a cancellation is answered 204 with no
  body, a signature is verified.
\<close>

definition working_fetch :: "request list \<Rightarrow> request \<Rightarrow> error + js response" where
  "working_fetch history req =
     (case req of
        TokenRequest client secret \<Rightarrow> Inl (TypeError ''fetch failed'')
      | OrderCreateRequest tok a c d p \<Rightarrow>
          answer 201 ''Created'' (JObj [(''id'', JStr ''5O190127TN364715T''), (''status'', JStr ''CREATED'')])
      | OrderCaptureRequest tok i \<Rightarrow> answer 201 ''Created'' completedCapture
      | OrderCancelRequest tok i \<Rightarrow>
          Inr \<lparr>ok = True, status = 204, statusText = ''No Content'',
               json = Inl (SyntaxError ''Unexpected end of JSON input'')\<rparr>
      | WebhookVerifyRequest tok w ev c i t sg \<Rightarrow>
          answer 200 ''OK'' (JObj [(''verification_status'', JStr ''SUCCESS'')]))"

definition working :: env where
  "working =
     \<lparr>PAYPAL_CLIENT_ID = ''AYclientid'', PAYPAL_CLIENT_SECRET = ''EKsecret'',
      PAYPAL_WEBHOOK_ID = ''WH-2WR32451HC0233532'',
      fetch_token = (\<lambda>history req.
         Inr \<lparr>ok = True, status = 200, statusText = ''OK'', json = Inr issued\<rparr>),
      fetch = working_fetch,
      Date_now = (\<lambda>n. 1700000000000 + 1000 * int n),
      Math_random = (\<lambda>n. 1 / 100),
      parseFloat = decimal_number,
      ToString_other = (\<lambda>v. case v of JNum r \<Rightarrow> Inr (show_nat (nat \<lfloor>r\<rfloor>))
                              | _ \<Rightarrow> Inr ''[object Object]''),
      ToNumber_other = (\<lambda>v. NaN)\<rparr>"

definition start :: state where
  "start = \<lparr>tokenCache = None, fetches = [], clock_reads = 0, random_draws = 0\<rparr>"

text \<open>
  Worlds in which the token cannot be had: a credential is missing, nothing can be reached,
  the token endpoint answers 401. A state that holds a token issued in 2020, and one that
  holds a token issued 1000 seconds before the first reading of the clock.
\<close>

definition unconfigured :: env where
  "unconfigured = working\<lparr>PAYPAL_CLIENT_SECRET := []\<rparr>"

definition offline :: env where
  "offline = working\<lparr>fetch_token := (\<lambda>history req. Inl (TypeError ''fetch failed'')),
                      fetch := (\<lambda>history req. Inl (TypeError ''fetch failed''))\<rparr>"

definition rejecting :: env where
  "rejecting = working\<lparr>fetch_token := (\<lambda>history req.
       Inr \<lparr>ok = False, status = 401, statusText = ''Unauthorized'',
            json = Inl (SyntaxError ''not read'')\<rparr>)\<rparr>"

definition stale :: state where
  "stale = \<lparr>tokenCache = Some \<lparr>access_token = JStr ''A21AAold'', expires_in = JNum 32400,
                                created_at = 1600000000000\<rparr>,
            fetches = [], clock_reads = 0, random_draws = 0\<rparr>"

definition fresh :: state where
  "fresh = \<lparr>tokenCache = Some \<lparr>access_token = JStr ''A21AAnew'', expires_in = JNum 32400,
                                created_at = 1699999000000\<rparr>,
            fetches = [], clock_reads = 0, random_draws = 0\<rparr>"


text \<open>
  Worlds that differ from the working one in one endpoint: the capture is answered 422
  \<^verbatim>\<open>ORDER_ALREADY_CAPTURED\<close>; the capture is pending, or there is none, under an order
  whose own status is \<^verbatim>\<open>"COMPLETED"\<close>; the completed capture is the second one, after
  a declined one; the signature does not verify; the cancel endpoint cannot be reached.
  Request bodies and two webhook requests.
\<close>

definition alreadyCaptured :: env where
  "alreadyCaptured = working\<lparr>fetch := (\<lambda>history req.
     case req of
       OrderCaptureRequest tok i \<Rightarrow>
         answer 422 ''Unprocessable Entity''
           (JObj [(''name'', JStr ''UNPROCESSABLE_ENTITY''),
                  (''details'', JArr [JObj [(''issue'', JStr ''ORDER_ALREADY_CAPTURED'')]])])
     | _ \<Rightarrow> working_fetch history req)\<rparr>"

definition captureResponse :: "js list \<Rightarrow> js" where
  "captureResponse captures =
     JObj [(''id'', JStr ''5O190127TN364715T''),
           (''status'', JStr ''COMPLETED''),
           (''purchase_units'', JArr [JObj [(''payments'', JObj [(''captures'', JArr captures)])]])]"

definition pendingCapture :: js where
  "pendingCapture =
     captureResponse [JObj [(''id'', JStr ''3C679366HH908993F''), (''status'', JStr ''PENDING'')]]"

definition noCapture :: js where
  "noCapture = captureResponse []"

definition secondCompleted :: js where
  "secondCompleted =
     captureResponse [JObj [(''id'', JStr ''3C679366HH908993F''), (''status'', JStr ''DECLINED'')],
                      JObj [(''id'', JStr ''7TK53561YB803214S''), (''status'', JStr ''COMPLETED'')]]"

definition capturing :: "js \<Rightarrow> env" where
  "capturing captureData = working\<lparr>fetch := (\<lambda>history req.
     case req of
       OrderCaptureRequest tok i \<Rightarrow> answer 201 ''Created'' captureData
     | _ \<Rightarrow> working_fetch history req)\<rparr>"

definition pending :: env where
  "pending = capturing pendingCapture"

definition unverified :: env where
  "unverified = working\<lparr>fetch := (\<lambda>history req.
     case req of
       WebhookVerifyRequest tok w ev c i t sg \<Rightarrow>
         answer 200 ''OK'' (JObj [(''verification_status'', JStr ''FAILURE'')])
     | _ \<Rightarrow> working_fetch history req)\<rparr>"

definition cancelFails :: env where
  "cancelFails = working\<lparr>fetch := (\<lambda>history req.
     case req of
       OrderCancelRequest tok i \<Rightarrow> Inl (TypeError ''fetch failed'')
     | _ \<Rightarrow> working_fetch history req)\<rparr>"

definition largeOrder :: js where
  "largeOrder = JObj [(''amount'', JStr ''500.00''), (''currency'', JStr ''USD''),
                      (''email'', JStr ''buyer@example.com'')]"



definition signedHeaders :: "string \<Rightarrow> string option" where
  "signedHeaders =
     [''paypal-transmission-id'' \<mapsto> ''69cd13f0-d67a-11e5-baa3-778b53f4ae55'',
      ''paypal-transmission-time'' \<mapsto> ''2023-11-14T22:13:20Z'',
      ''paypal-cert-url'' \<mapsto> ''https://api.paypal.com/v1/notifications/certs/CERT-360caa42'',
      ''paypal-transmission-sig'' \<mapsto> ''kXpD8nAw9ZkqA5dq0lYyqH8nA=='']"

definition captureCompletedEvent :: js where
  "captureCompletedEvent =
     JObj [(''event_type'', JStr ''PAYMENT.CAPTURE.COMPLETED''),
           (''resource'', JObj [(''id'', JStr ''3C679366HH908993F''),
                                (''status'', JStr ''COMPLETED'')])]"

definition noAuthAlgorithm :: webhook_request where
  "noAuthAlgorithm = \<lparr>headers = signedHeaders, webhook_json = Inr captureCompletedEvent\<rparr>"

definition noSignature :: webhook_request where
  "noSignature =
     \<lparr>headers = signedHeaders(''paypal-transmission-sig'' := None,
                               ''paypal-auth-algorithm'' \<mapsto> ''SHA256withRSA''),
      webhook_json = Inr captureCompletedEvent\<rparr>"

section \<open>The token cache: properties\<close>

lemma cache_check_simps [simp]:
  "tokenCache (cache_check e s) = tokenCache s"
  "fetches (cache_check e s) = fetches s"
  "random_draws (cache_check e s) = random_draws s"
  by (simp_all add: cache_check_def now_def split: option.splits)

lemma isExpired_number:
  "expires_in c = JNum r \<Longrightarrow>
   isExpired e t c = (of_int t > of_int (created_at c) + (r - 60) * 1000)"
  by (simp add: isExpired_def)

lemma getAccessToken_cached:
  "tokenCache s = Some c \<Longrightarrow> \<not> isExpired e (Date_now e (clock_reads s)) c \<Longrightarrow>
   getAccessToken e s = (Inr (access_token c), s\<lparr>clock_reads := Suc (clock_reads s)\<rparr>)"
  by (simp add: getAccessToken_def now_def)

lemma getAccessToken_refresh:
  "needs_refresh e s \<Longrightarrow> getAccessToken e s = refreshToken e (cache_check e s)"
  by (auto simp: getAccessToken_def needs_refresh_def cache_check_def now_def split: option.splits)

lemma getAccessToken_no_refresh:
  "\<not> needs_refresh e s \<Longrightarrow> tokenCache (snd (getAccessToken e s)) = tokenCache s"
  by (auto simp: getAccessToken_def needs_refresh_def now_def split: option.splits)

lemma refreshToken_error:
  "refreshToken e s = (Inl err, s') \<Longrightarrow> err = authFailed"
  unfolding refreshToken_def
  by (cases "requestToken e s") (auto split: sum.splits)

lemma getAccessToken_error:
  "getAccessToken e s = (Inl err, s') \<Longrightarrow> err = authFailed"
  by (auto simp: getAccessToken_def now_def split: option.splits if_splits dest: refreshToken_error)

lemma refreshToken_unconfigured:
  "\<not> configured e \<Longrightarrow> refreshToken e s = (Inl authFailed, s)"
  by (auto simp: refreshToken_def requestToken_def configured_def)

lemma refreshToken_transport:
  "configured e \<Longrightarrow> fetch_token e (fetches s) (tokenRequest e) = Inl err \<Longrightarrow>
   refreshToken e s = (Inl authFailed, s\<lparr>fetches := fetches s @ [tokenRequest e]\<rparr>)"
  by (auto simp: refreshToken_def requestToken_def configured_def tokenRequest_def do_fetch_token_def)

lemma refreshToken_rejected:
  "configured e \<Longrightarrow> fetch_token e (fetches s) (tokenRequest e) = Inr r \<Longrightarrow> \<not> ok r \<Longrightarrow>
   refreshToken e s = (Inl authFailed, s\<lparr>fetches := fetches s @ [tokenRequest e]\<rparr>)"
  by (auto simp: refreshToken_def requestToken_def configured_def tokenRequest_def do_fetch_token_def)


lemma refreshToken_parsed:
  "configured e \<Longrightarrow> fetch_token e (fetches s) (tokenRequest e) = Inr r \<Longrightarrow> ok r \<Longrightarrow>
   json r = Inr d \<Longrightarrow>
   refreshToken e s =
     (case get_prop d ''access_token'' of Inl err \<Rightarrow> Inl authFailed | Inr tok \<Rightarrow> Inr tok,
      s\<lparr>fetches := fetches s @ [tokenRequest e], clock_reads := Suc (clock_reads s),
        tokenCache := Some (cached d (Date_now e (clock_reads s)))\<rparr>)"
  by (auto simp: refreshToken_def requestToken_def configured_def tokenRequest_def
        do_fetch_token_def now_def Let_def split: sum.splits)

lemma refreshToken_issued:
  "configured e \<Longrightarrow> fetch_token e (fetches s) (tokenRequest e) = Inr r \<Longrightarrow> ok r \<Longrightarrow>
   json r = Inr d \<Longrightarrow> get_prop d ''access_token'' = Inr tok \<Longrightarrow>
   refreshToken e s =
     (Inr tok,
      s\<lparr>fetches := fetches s @ [tokenRequest e], clock_reads := Suc (clock_reads s),
        tokenCache := Some (cached d (Date_now e (clock_reads s)))\<rparr>)"
  by (simp add: refreshToken_parsed)

lemma refreshToken_fetches:
  "configured e \<Longrightarrow> fetches (snd (refreshToken e s)) = fetches s @ [tokenRequest e]"
  by (auto simp: refreshToken_def requestToken_def configured_def tokenRequest_def
        do_fetch_token_def now_def Let_def split: sum.splits)


text \<open>
  The cache changes only where the credentials are configured: a state that holds a token
  is a state of a process whose credentials are set.
\<close>

lemma cache_filled_configured:
  "getAccessToken e s = (res, s') \<Longrightarrow> tokenCache s' \<noteq> tokenCache s \<Longrightarrow> configured e"
proof (cases "needs_refresh e s")
  case False
  assume "getAccessToken e s = (res, s')" "tokenCache s' \<noteq> tokenCache s"
  with getAccessToken_no_refresh [OF False] show ?thesis by simp
next
  case True
  assume g: "getAccessToken e s = (res, s')" and ch: "tokenCache s' \<noteq> tokenCache s"
  from g True have r: "refreshToken e (cache_check e s) = (res, s')"
    by (simp add: getAccessToken_refresh)
  show ?thesis
  proof (rule ccontr)
    assume "\<not> configured e"
    with r ch show False
      by (auto simp: refreshToken_unconfigured)
  qed
qed

lemmas world_defs = working_def unconfigured_def offline_def rejecting_def stale_def fresh_def
  start_def issued_def working_fetch_def answer_def
lemmas token_defs = getAccessToken_def refreshToken_def requestToken_def do_fetch_token_def
  now_def isExpired_def authFailed_def cached_def

subsection \<open>Reuse and refresh\<close>

text \<open>
  Claim C4. A call of \<^verbatim>\<open>getAccessToken\<close> that finds a cached token still valid under the
  60-second margin returns that token and makes no network call, leaving the cache as it
  is. A call that finds the cached token expired makes exactly one request, to the token
  endpoint (the credentials are configured: they are constants of the module, and a token
  was issued before), and when that exchange succeeds it replaces the cache with the
  token and the lifetime of the response and the clock's time at that moment, and returns
  the new token.
\<close>

theorem getAccessToken_reuse_then_refresh:
  assumes "tokenCache s = Some c"
  shows "(\<not> isExpired e (Date_now e (clock_reads s)) c \<longrightarrow>
            fst (getAccessToken e s) = Inr (access_token c)
          \<and> fetches (snd (getAccessToken e s)) = fetches s
          \<and> tokenCache (snd (getAccessToken e s)) = tokenCache s)
       \<and> (isExpired e (Date_now e (clock_reads s)) c \<and> configured e \<longrightarrow>
            fetches (snd (getAccessToken e s)) = fetches s @ [tokenRequest e]
          \<and> (\<forall>r d. fetch_token e (fetches s) (tokenRequest e) = Inr r \<and> ok r \<and> json r = Inr d \<longrightarrow>
                tokenCache (snd (getAccessToken e s))
                  = Some \<lparr>access_token = opt_prop d ''access_token'',
                          expires_in = opt_prop d ''expires_in'',
                          created_at = Date_now e (Suc (clock_reads s))\<rparr>
              \<and> (\<forall>tok. get_prop d ''access_token'' = Inr tok \<longrightarrow>
                     fst (getAccessToken e s) = Inr tok \<and> tok = opt_prop d ''access_token'')))"
proof (intro conjI impI allI)
  assume valid: "\<not> isExpired e (Date_now e (clock_reads s)) c"
  from getAccessToken_cached [OF assms valid]
  show "fst (getAccessToken e s) = Inr (access_token c)"
    and "fetches (snd (getAccessToken e s)) = fetches s"
    and "tokenCache (snd (getAccessToken e s)) = tokenCache s"
    by simp_all
next
  assume exp: "isExpired e (Date_now e (clock_reads s)) c \<and> configured e"
  then have nr: "needs_refresh e s"
    using assms by (simp add: needs_refresh_def now_def)
  from exp refreshToken_fetches [of e "cache_check e s"]
  show "fetches (snd (getAccessToken e s)) = fetches s @ [tokenRequest e]"
    by (simp add: getAccessToken_refresh [OF nr])
  fix r d
  assume resp: "fetch_token e (fetches s) (tokenRequest e) = Inr r \<and> ok r \<and> json r = Inr d"
  have cr: "clock_reads (cache_check e s) = Suc (clock_reads s)"
    using assms by (simp add: cache_check_def now_def)
  from exp resp have eq: "getAccessToken e s =
     (case get_prop d ''access_token'' of Inl err \<Rightarrow> Inl authFailed | Inr tok \<Rightarrow> Inr tok,
      (cache_check e s)\<lparr>fetches := fetches (cache_check e s) @ [tokenRequest e],
        clock_reads := Suc (clock_reads (cache_check e s)),
        tokenCache := Some (cached d (Date_now e (clock_reads (cache_check e s))))\<rparr>)"
    using refreshToken_parsed [of e "cache_check e s" r d]
    by (simp add: getAccessToken_refresh [OF nr])
  show "tokenCache (snd (getAccessToken e s))
          = Some \<lparr>access_token = opt_prop d ''access_token'',
                  expires_in = opt_prop d ''expires_in'',
                  created_at = Date_now e (Suc (clock_reads s))\<rparr>"
    by (simp add: eq cr cached_def)
  fix tok
  assume tok: "get_prop d ''access_token'' = Inr tok"
  then show "fst (getAccessToken e s) = Inr tok"
    by (simp add: eq)
  from tok show "tok = opt_prop d ''access_token''"
    by (cases d) auto
qed

text \<open>
  In the working world: a token cached 1000 seconds ago is returned with no request; a
  token cached in 2020 costs one token request and is replaced.
\<close>

theorem getAccessToken_reuse_then_refresh_witness:
  "fst (getAccessToken working fresh) = Inr (JStr ''A21AAnew'')
   \<and> fetches (snd (getAccessToken working fresh)) = []
   \<and> fetches (snd (getAccessToken working stale)) = [TokenRequest ''AYclientid'' ''EKsecret'']
   \<and> fst (getAccessToken working stale) = Inr (JStr ''A21AAFEpH4PsADK7qSS7pSRsgz'')
   \<and> tokenCache (snd (getAccessToken working stale))
       = Some \<lparr>access_token = JStr ''A21AAFEpH4PsADK7qSS7pSRsgz'', expires_in = JNum 32400,
               created_at = 1700000001000\<rparr>"
proof -
  have f: "tokenCache fresh = Some \<lparr>access_token = JStr ''A21AAnew'', expires_in = JNum 32400,
                                created_at = 1699999000000\<rparr>"
    by (simp add: fresh_def)
  have s: "tokenCache stale = Some \<lparr>access_token = JStr ''A21AAold'', expires_in = JNum 32400,
                                created_at = 1600000000000\<rparr>"
    by (simp add: stale_def)
  from getAccessToken_reuse_then_refresh [OF f, of working]
       getAccessToken_reuse_then_refresh [OF s, of working]
  show ?thesis
    by (simp add: world_defs isExpired_def configured_def tokenRequest_def)
qed

subsection \<open>What a failing call does to the cache\<close>




subsection \<open>One error for every failure\<close>

text \<open>
  Claim C6 says that the caller can tell missing credentials, a rejection by the provider
  and a transport failure apart from the returned error. It cannot: the \<^verbatim>\<open>catch\<close> of
  \<^verbatim>\<open>getAccessToken\<close> replaces whatever was thrown, and the three worlds below return the
  same error.
\<close>

theorem getAccessToken_errors_same_counterexample:
  "fst (getAccessToken unconfigured start) = Inl (Error ''Failed to authenticate with PayPal'')
   \<and> fst (getAccessToken offline start) = Inl (Error ''Failed to authenticate with PayPal'')
   \<and> fst (getAccessToken rejecting start) = Inl (Error ''Failed to authenticate with PayPal'')"
  by (simp add: world_defs token_defs)

text \<open>
  Claim C6, amended. When the cache holds no usable token, \<^verbatim>\<open>getAccessToken\<close> fails
  when a credential is not configured, when the request to the token endpoint fails in
  transport, and when the token endpoint answers with a non-success status; in each case,
  and in every other failing execution, the error it returns is the one
  \<^verbatim>\<open>Error('Failed to authenticate with PayPal')\<close>.
\<close>

theorem getAccessToken_fails_with_one_error:
  assumes "needs_refresh e s"
  shows "(\<not> configured e \<longrightarrow> fst (getAccessToken e s) = Inl authFailed)
       \<and> (configured e \<and> (\<exists>err. fetch_token e (fetches s) (tokenRequest e) = Inl err) \<longrightarrow>
            fst (getAccessToken e s) = Inl authFailed)
       \<and> (configured e \<and> (\<exists>r. fetch_token e (fetches s) (tokenRequest e) = Inr r \<and> \<not> ok r) \<longrightarrow>
            fst (getAccessToken e s) = Inl authFailed)
       \<and> (\<forall>err. fst (getAccessToken e s) = Inl err \<longrightarrow> err = authFailed)"
proof (intro conjI impI allI)
  assume "\<not> configured e"
  then show "fst (getAccessToken e s) = Inl authFailed"
    by (simp add: getAccessToken_refresh [OF assms] refreshToken_unconfigured)
next
  assume "configured e \<and> (\<exists>err. fetch_token e (fetches s) (tokenRequest e) = Inl err)"
  then show "fst (getAccessToken e s) = Inl authFailed"
    using refreshToken_transport [of e "cache_check e s"]
    by (auto simp: getAccessToken_refresh [OF assms])
next
  assume "configured e \<and> (\<exists>r. fetch_token e (fetches s) (tokenRequest e) = Inr r \<and> \<not> ok r)"
  then show "fst (getAccessToken e s) = Inl authFailed"
    using refreshToken_rejected [of e "cache_check e s"]
    by (auto simp: getAccessToken_refresh [OF assms])
next
  fix err assume "fst (getAccessToken e s) = Inl err"
  then show "err = authFailed"
    using getAccessToken_error [of e s err "snd (getAccessToken e s)"]
    by (cases "getAccessToken e s") simp
qed

theorem getAccessToken_fails_with_one_error_witness:
  "needs_refresh unconfigured start \<and> needs_refresh offline start \<and> needs_refresh rejecting start
   \<and> fst (getAccessToken unconfigured start) = Inl authFailed
   \<and> fst (getAccessToken offline start) = Inl authFailed
   \<and> fst (getAccessToken rejecting start) = Inl authFailed"
proof -
  have n: "needs_refresh unconfigured start" "needs_refresh offline start"
      "needs_refresh rejecting start"
    by (simp_all add: needs_refresh_def start_def)
  from getAccessToken_fails_with_one_error [OF n(1)] getAccessToken_fails_with_one_error [OF n(2)]
       getAccessToken_fails_with_one_error [OF n(3)] n
  show ?thesis
    by (simp add: world_defs configured_def tokenRequest_def)
qed

section \<open>Capture: properties\<close>

lemma get_prop_again: "get_prop x n = Inr v \<Longrightarrow> get_prop x m = Inr (opt_prop x m)"
  by (cases x) auto

lemma truthy_get_prop: "truthy x \<Longrightarrow> get_prop x n = Inr (opt_prop x n)"
  by (cases x) auto

lemma validateCapture_Inr:
  "validateCapture d = Inr res \<longleftrightarrow>
     (\<exists>capture. first_capture d = Inr capture \<and> truthy capture
        \<and> get_prop capture ''status'' = Inr (JStr ''COMPLETED'')
        \<and> res = captureSuccess d capture)"
  by (auto simp: validateCapture_def split: sum.splits if_splits)

lemma captureSuccess_success [simp]:
  "opt_prop (captureSuccess d c) ''success'' = JBool True"
  by (simp add: captureSuccess_def)

lemma captureFailed_success [simp]:
  "opt_prop (captureFailed i) ''success'' = JBool False"
  by (simp add: captureFailed_def)

lemma captureSuccess_not_failed [simp]: "captureSuccess d c \<noteq> captureFailed i"
  by (simp add: captureSuccess_def captureFailed_def)

lemma captureAttempt_Inr:
  "fst (captureAttempt e orderID s) = Inr res \<longleftrightarrow>
     (\<exists>accessToken s1 response captureData.
        getAccessToken e s = (Inr accessToken, s1)
      \<and> fetch e (fetches s1) (OrderCaptureRequest accessToken orderID) = Inr response
      \<and> ok response \<and> json response = Inr captureData
      \<and> validateCapture captureData = Inr res)"
proof (cases "getAccessToken e s")
  case (Pair a s1)
  then show ?thesis
    by (cases a; cases "fetch e (fetches s1) (OrderCaptureRequest (projr a) orderID)")
       (auto simp: captureAttempt_def do_fetch_def split: sum.splits)
qed

lemma capturePayPalOrder_cases:
  "fst (capturePayPalOrder e orderID s) =
     (case fst (captureAttempt e orderID s) of Inl err \<Rightarrow> captureFailed orderID | Inr res \<Rightarrow> res)"
  by (cases "captureAttempt e orderID s") (auto simp: capturePayPalOrder_def split: sum.splits)

lemma first_capture_shaped:
  "map_of kvs ''purchase_units'' = Some (JArr (JObj unit # units)) \<Longrightarrow>
   map_of unit ''payments'' = Some (JObj payments) \<Longrightarrow>
   map_of payments ''captures'' = Some (JArr captures) \<Longrightarrow>
   first_capture (JObj kvs) = Inr (case captures of [] \<Rightarrow> JUndefined | capture # others \<Rightarrow> capture)"
  by (cases captures) (simp_all add: first_capture_def)

lemma completed_object:
  "(truthy capture \<and> get_prop capture ''status'' = Inr (JStr ''COMPLETED''))
     \<longleftrightarrow> (\<exists>fields. capture = JObj fields \<and> map_of fields ''status'' = Some (JStr ''COMPLETED''))"
  by (cases capture) (auto split: option.splits)

lemma capturePayPalOrder_answered:
  "getAccessToken e s = (Inr accessToken, s1) \<Longrightarrow>
   fetch e (fetches s1) (OrderCaptureRequest accessToken orderID) = Inr response \<Longrightarrow>
   ok response \<Longrightarrow> json response = Inr captureData \<Longrightarrow>
   fst (capturePayPalOrder e orderID s) =
     (case validateCapture captureData of Inl err \<Rightarrow> captureFailed orderID | Inr res \<Rightarrow> res)"
  by (simp add: capturePayPalOrder_def captureAttempt_def do_fetch_def split: sum.splits)

lemma validateCapture_cases:
  "first_capture captureData = Inr capture \<Longrightarrow>
   validateCapture captureData =
     (if truthy capture \<and> get_prop capture ''status'' = Inr (JStr ''COMPLETED'')
      then Inr (captureSuccess captureData capture) else Inl captureNotCompleted)"
  by (cases capture) (auto simp: validateCapture_def)

text \<open>
  Claim C1 says that a capture response whose capture record is absent or not completed is
  reported as the failure \<^verbatim>\<open>CaptureIncomplete\<close>. The code has no such kind: a pending
  capture, a response without a capture, and a failed authentication all give the same
  object, and the error \<^verbatim>\<open>Payment capture was not completed\<close> is only logged.
\<close>

theorem capturePayPalOrder_pending_counterexample:
  "fst (capturePayPalOrder (capturing pendingCapture) ''5O190127TN364715T'' start)
     = JObj [(''success'', JBool False), (''orderId'', JStr ''5O190127TN364715T''),
             (''status'', JStr ''FAILED'')]
   \<and> fst (capturePayPalOrder (capturing noCapture) ''5O190127TN364715T'' start)
     = JObj [(''success'', JBool False), (''orderId'', JStr ''5O190127TN364715T''),
             (''status'', JStr ''FAILED'')]
   \<and> fst (capturePayPalOrder rejecting ''5O190127TN364715T'' start)
     = JObj [(''success'', JBool False), (''orderId'', JStr ''5O190127TN364715T''),
             (''status'', JStr ''FAILED'')]"
  by (simp add: capturing_def pendingCapture_def noCapture_def captureResponse_def world_defs
        token_defs capturePayPalOrder_def captureAttempt_def validateCapture_def
        first_capture_def captureFailed_def captureNotCompleted_def do_fetch_def)

text \<open>
  Claim C1, amended. \<^verbatim>\<open>capturePayPalOrder\<close> returns an object with \<^verbatim>\<open>success: true\<close>
  exactly when the capture call was answered with a success status and a body in which
  \<^verbatim>\<open>purchase_units?.[0]?.payments?.captures?.[0]\<close>, the first purchase unit's first
  capture record, exists (is truthy) and has the status \<^verbatim>\<open>"COMPLETED"\<close>. A response in
  which that record is absent, or has any other status, is answered with the generic
  failure object \<^verbatim>\<open>{success: false, orderId, status: 'FAILED'}\<close>, the one every other
  failure gives, never with a success. On a body of the processor's shape this reads: no
  capture in the first unit is a failure; otherwise the head of the first unit's captures
  decides, whatever the status of the order itself and of the captures after it.
\<close>

theorem capturePayPalOrder_success_iff_completed:
  "(opt_prop (fst (capturePayPalOrder e orderID s)) ''success'' = JBool True
      \<longleftrightarrow> (\<exists>accessToken s1 response captureData purchase_units capture.
             getAccessToken e s = (Inr accessToken, s1)
           \<and> fetch e (fetches s1) (OrderCaptureRequest accessToken orderID) = Inr response
           \<and> ok response \<and> json response = Inr captureData
           \<and> get_prop captureData ''purchase_units'' = Inr purchase_units
           \<and> capture = opt_index0 (opt_prop (opt_prop (opt_index0 purchase_units) ''payments'')
                                     ''captures'')
           \<and> truthy capture \<and> get_prop capture ''status'' = Inr (JStr ''COMPLETED'')))
   \<and> (\<forall>accessToken s1 response captureData.
         getAccessToken e s = (Inr accessToken, s1)
       \<and> fetch e (fetches s1) (OrderCaptureRequest accessToken orderID) = Inr response
       \<and> json response = Inr captureData
       \<and> \<not> (\<exists>purchase_units capture.
               get_prop captureData ''purchase_units'' = Inr purchase_units
             \<and> capture = opt_index0 (opt_prop (opt_prop (opt_index0 purchase_units) ''payments'')
                                       ''captures'')
             \<and> truthy capture \<and> get_prop capture ''status'' = Inr (JStr ''COMPLETED''))
       \<longrightarrow> fst (capturePayPalOrder e orderID s) = captureFailed orderID)
   \<and> (\<forall>accessToken s1 response order unit units payments captures.
         getAccessToken e s = (Inr accessToken, s1)
       \<and> fetch e (fetches s1) (OrderCaptureRequest accessToken orderID) = Inr response
       \<and> ok response \<and> json response = Inr (JObj order)
       \<and> map_of order ''purchase_units'' = Some (JArr (JObj unit # units))
       \<and> map_of unit ''payments'' = Some (JObj payments)
       \<and> map_of payments ''captures'' = Some (JArr captures)
       \<longrightarrow> fst (capturePayPalOrder e orderID s)
             = (case captures of
                  [] \<Rightarrow> captureFailed orderID
                | capture # others \<Rightarrow>
                    if \<exists>fields. capture = JObj fields
                               \<and> map_of fields ''status'' = Some (JStr ''COMPLETED'')
                    then captureSuccess (JObj order) capture
                    else captureFailed orderID))"
proof (intro conjI allI impI)
  show "opt_prop (fst (capturePayPalOrder e orderID s)) ''success'' = JBool True
      \<longleftrightarrow> (\<exists>accessToken s1 response captureData purchase_units capture.
             getAccessToken e s = (Inr accessToken, s1)
           \<and> fetch e (fetches s1) (OrderCaptureRequest accessToken orderID) = Inr response
           \<and> ok response \<and> json response = Inr captureData
           \<and> get_prop captureData ''purchase_units'' = Inr purchase_units
           \<and> capture = opt_index0 (opt_prop (opt_prop (opt_index0 purchase_units) ''payments'')
                                     ''captures'')
           \<and> truthy capture \<and> get_prop capture ''status'' = Inr (JStr ''COMPLETED''))"
    (is "?lhs \<longleftrightarrow> ?rhs")
  proof
    assume ?lhs
    then obtain res where res: "fst (captureAttempt e orderID s) = Inr res"
      by (cases "fst (captureAttempt e orderID s)") (simp_all add: capturePayPalOrder_cases)
    then obtain accessToken s1 response captureData capture where
        "getAccessToken e s = (Inr accessToken, s1)"
        "fetch e (fetches s1) (OrderCaptureRequest accessToken orderID) = Inr response"
        "ok response" "json response = Inr captureData"
        "first_capture captureData = Inr capture" "truthy capture"
        "get_prop capture ''status'' = Inr (JStr ''COMPLETED'')"
      unfolding captureAttempt_Inr validateCapture_Inr by blast
    then show ?rhs
      by (auto simp: first_capture_def split: sum.splits)
  next
    assume ?rhs
    then obtain accessToken s1 response captureData purchase_units capture where h:
        "getAccessToken e s = (Inr accessToken, s1)"
        "fetch e (fetches s1) (OrderCaptureRequest accessToken orderID) = Inr response"
        "ok response" "json response = Inr captureData"
        "get_prop captureData ''purchase_units'' = Inr purchase_units"
        "capture = opt_index0 (opt_prop (opt_prop (opt_index0 purchase_units) ''payments'')
                                     ''captures'')"
        "truthy capture" "get_prop capture ''status'' = Inr (JStr ''COMPLETED'')"
      by blast
    then have "first_capture captureData = Inr capture"
      by (simp add: first_capture_def)
    with h have "validateCapture captureData = Inr (captureSuccess captureData capture)"
      by (simp add: validateCapture_cases)
    with h show ?lhs
      by (simp add: capturePayPalOrder_answered)
  qed
next
  fix accessToken s1 response captureData
  assume a: "getAccessToken e s = (Inr accessToken, s1)
       \<and> fetch e (fetches s1) (OrderCaptureRequest accessToken orderID) = Inr response
       \<and> json response = Inr captureData
       \<and> \<not> (\<exists>purchase_units capture.
               get_prop captureData ''purchase_units'' = Inr purchase_units
             \<and> capture = opt_index0 (opt_prop (opt_prop (opt_index0 purchase_units) ''payments'')
                                       ''captures'')
             \<and> truthy capture \<and> get_prop capture ''status'' = Inr (JStr ''COMPLETED''))"
  then have "\<And>res. validateCapture captureData \<noteq> Inr res"
    unfolding validateCapture_Inr by (auto simp: first_capture_def split: sum.splits)
  then obtain err where "validateCapture captureData = Inl err"
    by (cases "validateCapture captureData") auto
  with a show "fst (capturePayPalOrder e orderID s) = captureFailed orderID"
    by (simp add: capturePayPalOrder_def captureAttempt_def do_fetch_def)
next
  fix accessToken s1 response order unit units payments captures
  assume a: "getAccessToken e s = (Inr accessToken, s1)
       \<and> fetch e (fetches s1) (OrderCaptureRequest accessToken orderID) = Inr response
       \<and> ok response \<and> json response = Inr (JObj order)
       \<and> map_of order ''purchase_units'' = Some (JArr (JObj unit # units))
       \<and> map_of unit ''payments'' = Some (JObj payments)
       \<and> map_of payments ''captures'' = Some (JArr captures)"
  then have f: "first_capture (JObj order)
                  = Inr (case captures of [] \<Rightarrow> JUndefined | capture # others \<Rightarrow> capture)"
    by (simp add: first_capture_shaped)
  from a have r: "fst (capturePayPalOrder e orderID s) =
     (case validateCapture (JObj order) of Inl err \<Rightarrow> captureFailed orderID | Inr res \<Rightarrow> res)"
    by (simp add: capturePayPalOrder_answered)
  show "fst (capturePayPalOrder e orderID s)
             = (case captures of
                  [] \<Rightarrow> captureFailed orderID
                | capture # others \<Rightarrow>
                    if \<exists>fields. capture = JObj fields
                               \<and> map_of fields ''status'' = Some (JStr ''COMPLETED'')
                    then captureSuccess (JObj order) capture
                    else captureFailed orderID)"
  proof (cases captures)
    case Nil
    with f r show ?thesis
      by (simp add: validateCapture_cases captureNotCompleted_def)
  next
    case (Cons capture others)
    with f r completed_object [of capture] show ?thesis
      by (simp add: validateCapture_cases captureNotCompleted_def)
  qed
qed

lemmas capture_defs = capturePayPalOrder_def captureAttempt_def validateCapture_def
  first_capture_def captureSuccess_def captureFailed_def captureNotCompleted_def do_fetch_def

text \<open>
  Four bodies of the processor's shape, each with the order's own status
  \<^verbatim>\<open>"COMPLETED"\<close>: a pending capture, no capture, a declined capture followed by a
  completed one, and a completed capture. Only the last succeeds.
\<close>

lemma capturing_answers:
  "getAccessToken (capturing d) start
     = (Inr (JStr ''A21AAFEpH4PsADK7qSS7pSRsgz''), snd (getAccessToken (capturing d) start))"
  "fetch (capturing d) (fetches (snd (getAccessToken (capturing d) start)))
     (OrderCaptureRequest (JStr ''A21AAFEpH4PsADK7qSS7pSRsgz'') ''5O190127TN364715T'')
     = Inr \<lparr>ok = True, status = 201, statusText = ''Created'', json = Inr d\<rparr>"
  by (simp_all add: capturing_def world_defs token_defs)

theorem capturePayPalOrder_success_iff_completed_witness:
  "fst (capturePayPalOrder (capturing pendingCapture) ''5O190127TN364715T'' start)
       = captureFailed ''5O190127TN364715T''
   \<and> fst (capturePayPalOrder (capturing noCapture) ''5O190127TN364715T'' start)
       = captureFailed ''5O190127TN364715T''
   \<and> fst (capturePayPalOrder (capturing secondCompleted) ''5O190127TN364715T'' start)
       = captureFailed ''5O190127TN364715T''
   \<and> opt_prop (fst (capturePayPalOrder (capturing completedCapture) ''5O190127TN364715T'' start))
       ''success'' = JBool True
   \<and> opt_prop (fst (capturePayPalOrder (capturing completedCapture) ''5O190127TN364715T'' start))
       ''captureId'' = JStr ''3C679366HH908993F''"
proof -
  note shaped = capturePayPalOrder_success_iff_completed
     [THEN conjunct2, THEN conjunct2, rule_format, OF conjI, OF capturing_answers(1),
      OF conjI, OF capturing_answers(2)]
  have p: "fst (capturePayPalOrder (capturing pendingCapture) ''5O190127TN364715T'' start)
       = captureFailed ''5O190127TN364715T''"
    using shaped [of pendingCapture] by (simp add: pendingCapture_def captureResponse_def)
  have n: "fst (capturePayPalOrder (capturing noCapture) ''5O190127TN364715T'' start)
       = captureFailed ''5O190127TN364715T''"
    using shaped [of noCapture] by (simp add: noCapture_def captureResponse_def)
  have d: "fst (capturePayPalOrder (capturing secondCompleted) ''5O190127TN364715T'' start)
       = captureFailed ''5O190127TN364715T''"
    using shaped [of secondCompleted] by (simp add: secondCompleted_def captureResponse_def)
  have c: "fst (capturePayPalOrder (capturing completedCapture) ''5O190127TN364715T'' start)
       = captureSuccess completedCapture
           (JObj [(''id'', JStr ''3C679366HH908993F''), (''status'', JStr ''COMPLETED''),
                  (''amount'', JObj [(''currency_code'', JStr ''USD''),
                                    (''value'', JStr ''10.00'')])])"
    using shaped [of completedCapture] by (simp add: completedCapture_def)
  from p n d c show ?thesis by (simp add: captureSuccess_def)
qed

text \<open>
  Claim C5 says that a duplicate-capture response without a completed capture reaches the
  caller as a distinguishable error kind, not as a generic failure. The code has no such
  kind: the processor's 422 \<^verbatim>\<open>ORDER_ALREADY_CAPTURED\<close>, a transport failure and a pending
  capture all give the same object.
\<close>

theorem capturePayPalOrder_duplicate_counterexample:
  "fst (capturePayPalOrder alreadyCaptured ''5O190127TN364715T'' start)
     = JObj [(''success'', JBool False), (''orderId'', JStr ''5O190127TN364715T''),
             (''status'', JStr ''FAILED'')]
   \<and> fst (capturePayPalOrder offline ''5O190127TN364715T'' start)
     = JObj [(''success'', JBool False), (''orderId'', JStr ''5O190127TN364715T''),
             (''status'', JStr ''FAILED'')]
   \<and> fst (capturePayPalOrder pending ''5O190127TN364715T'' start)
     = JObj [(''success'', JBool False), (''orderId'', JStr ''5O190127TN364715T''),
             (''status'', JStr ''FAILED'')]"
  by (simp add: alreadyCaptured_def pending_def capturing_def pendingCapture_def
        captureResponse_def world_defs token_defs capture_defs)

text \<open>
  Claim C5, amended. A capture call answered with a non-success status, as a duplicate
  capture is, makes \<^verbatim>\<open>capturePayPalOrder\<close> return the failure object
  \<^verbatim>\<open>{success: false, orderId, status: 'FAILED'}\<close>, whatever the body of the response says;
  and every result of \<^verbatim>\<open>capturePayPalOrder\<close> is either that one failure object or a success
  that carries the status \<^verbatim>\<open>"COMPLETED"\<close>.
\<close>

theorem capturePayPalOrder_failure_is_generic:
  "(\<forall>accessToken s1 response.
       getAccessToken e s = (Inr accessToken, s1)
     \<and> fetch e (fetches s1) (OrderCaptureRequest accessToken orderID) = Inr response
     \<and> \<not> ok response
     \<longrightarrow> fst (capturePayPalOrder e orderID s) = captureFailed orderID)
   \<and> (fst (capturePayPalOrder e orderID s) = captureFailed orderID
      \<or> (opt_prop (fst (capturePayPalOrder e orderID s)) ''success'' = JBool True
         \<and> opt_prop (fst (capturePayPalOrder e orderID s)) ''status'' = JStr ''COMPLETED''))"
proof (intro conjI allI impI)
  fix accessToken s1 response
  assume "getAccessToken e s = (Inr accessToken, s1)
     \<and> fetch e (fetches s1) (OrderCaptureRequest accessToken orderID) = Inr response
     \<and> \<not> ok response"
  then show "fst (capturePayPalOrder e orderID s) = captureFailed orderID"
    by (simp add: capturePayPalOrder_def captureAttempt_def do_fetch_def)
next
  show "fst (capturePayPalOrder e orderID s) = captureFailed orderID
      \<or> (opt_prop (fst (capturePayPalOrder e orderID s)) ''success'' = JBool True
         \<and> opt_prop (fst (capturePayPalOrder e orderID s)) ''status'' = JStr ''COMPLETED'')"
  proof (cases "fst (captureAttempt e orderID s)")
    case (Inl err)
    then show ?thesis by (simp add: capturePayPalOrder_cases)
  next
    case (Inr res)
    then obtain d c where "truthy c" "get_prop c ''status'' = Inr (JStr ''COMPLETED'')"
        "res = captureSuccess d c"
      unfolding captureAttempt_Inr validateCapture_Inr by blast
    then have "opt_prop res ''success'' = JBool True \<and> opt_prop res ''status'' = JStr ''COMPLETED''"
      using truthy_get_prop [of c "''status''"] by (simp add: captureSuccess_def)
    then show ?thesis by (simp add: capturePayPalOrder_cases Inr)
  qed
qed

theorem capturePayPalOrder_failure_is_generic_witness:
  "fst (capturePayPalOrder alreadyCaptured ''5O190127TN364715T'' start)
     = captureFailed ''5O190127TN364715T''"
proof -
  have t: "getAccessToken alreadyCaptured start =
      (Inr (JStr ''A21AAFEpH4PsADK7qSS7pSRsgz''), snd (getAccessToken alreadyCaptured start))"
    by (simp add: alreadyCaptured_def world_defs token_defs)
  have f: "fetches (snd (getAccessToken alreadyCaptured start))
             = [TokenRequest ''AYclientid'' ''EKsecret'']"
    by (simp add: alreadyCaptured_def world_defs token_defs)
  have r: "\<exists>response. fetch alreadyCaptured [TokenRequest ''AYclientid'' ''EKsecret'']
             (OrderCaptureRequest (JStr ''A21AAFEpH4PsADK7qSS7pSRsgz'') ''5O190127TN364715T'')
           = Inr response \<and> \<not> ok response"
    by (simp add: alreadyCaptured_def world_defs)
  then obtain response where r': "fetch alreadyCaptured [TokenRequest ''AYclientid'' ''EKsecret'']
             (OrderCaptureRequest (JStr ''A21AAFEpH4PsADK7qSS7pSRsgz'') ''5O190127TN364715T'')
           = Inr response" "\<not> ok response" by blast
  show ?thesis
    using capturePayPalOrder_failure_is_generic
            [of alreadyCaptured start "''5O190127TN364715T''", THEN conjunct1, rule_format,
             of "JStr ''A21AAFEpH4PsADK7qSS7pSRsgz''" "snd (getAccessToken alreadyCaptured start)"
                response]
          t f r'
    by simp
qed

section \<open>Webhook signature verification: properties\<close>

lemma verifyAttempt_True:
  "fst (verifyAttempt e webhookId webhookEvent certUrl transmissionId transmissionTime
          transmissionSig s) = Inr True \<longleftrightarrow>
     (\<exists>accessToken s1 response verificationData.
        getAccessToken e s = (Inr accessToken, s1)
      \<and> fetch e (fetches s1) (WebhookVerifyRequest accessToken webhookId webhookEvent certUrl
                                 transmissionId transmissionTime transmissionSig) = Inr response
      \<and> ok response \<and> json response = Inr verificationData
      \<and> get_prop verificationData ''verification_status'' = Inr (JStr ''SUCCESS''))"
proof (cases "getAccessToken e s")
  case (Pair a s1)
  then show ?thesis
    by (cases a; cases "fetch e (fetches s1) (WebhookVerifyRequest (projr a) webhookId webhookEvent
                          certUrl transmissionId transmissionTime transmissionSig)")
       (auto simp: verifyAttempt_def do_fetch_def split: sum.splits)
qed

lemma verifyWebhookSignature_cases:
  "fst (verifyWebhookSignature e w ev c i t sg s) =
     (case fst (verifyAttempt e w ev c i t sg s) of Inl err \<Rightarrow> False | Inr b \<Rightarrow> b)"
  by (cases "verifyAttempt e w ev c i t sg s")
     (auto simp: verifyWebhookSignature_def split: sum.splits)

text \<open>
  Claim C7. \<^verbatim>\<open>verifyWebhookSignature\<close> returns a boolean on every input, and it returns
  \<^verbatim>\<open>true\<close> exactly when a token was obtained, the verification endpoint answered with a
  success status and a JSON body, and that body's \<^verbatim>\<open>verification_status\<close> is
  \<^verbatim>\<open>"SUCCESS"\<close>. A failed token exchange, a transport failure, a non-success status, an
  unreadable body and any other verification status all give \<^verbatim>\<open>false\<close>; nothing is thrown.
\<close>

theorem verifyWebhookSignature_true_iff_success:
  "fst (verifyWebhookSignature e webhookId webhookEvent certUrl transmissionId transmissionTime
          transmissionSig s) \<longleftrightarrow>
     (\<exists>accessToken s1 response verificationData.
        getAccessToken e s = (Inr accessToken, s1)
      \<and> fetch e (fetches s1) (WebhookVerifyRequest accessToken webhookId webhookEvent certUrl
                                 transmissionId transmissionTime transmissionSig) = Inr response
      \<and> ok response \<and> json response = Inr verificationData
      \<and> get_prop verificationData ''verification_status'' = Inr (JStr ''SUCCESS''))"
  unfolding verifyAttempt_True [symmetric] verifyWebhookSignature_cases
  by (auto split: sum.splits)

lemmas verify_defs = verifyWebhookSignature_def verifyAttempt_def do_fetch_def

theorem verifyWebhookSignature_true_iff_success_witness:
  "fst (verifyWebhookSignature working ''WH-2WR32451HC0233532'' (JObj [(''event_type'', JStr ''PAYMENT.CAPTURE.COMPLETED'')])
          ''https://api.paypal.com/cert.pem'' ''69cd13f0'' ''2023-11-14T22:13:20Z'' ''kXpD8nA=='' start)
   \<and> \<not> fst (verifyWebhookSignature unverified ''WH-2WR32451HC0233532'' (JObj [(''event_type'', JStr ''PAYMENT.CAPTURE.COMPLETED'')])
          ''https://api.paypal.com/cert.pem'' ''69cd13f0'' ''2023-11-14T22:13:20Z'' ''kXpD8nA=='' start)
   \<and> \<not> fst (verifyWebhookSignature offline ''WH-2WR32451HC0233532'' (JObj [(''event_type'', JStr ''PAYMENT.CAPTURE.COMPLETED'')])
          ''https://api.paypal.com/cert.pem'' ''69cd13f0'' ''2023-11-14T22:13:20Z'' ''kXpD8nA=='' start)"
proof -
  have off: "\<And>tok s1. getAccessToken offline start \<noteq> (Inr tok, s1)"
    by (simp add: world_defs token_defs)
  have "\<not> fst (verifyWebhookSignature offline ''WH-2WR32451HC0233532'' (JObj [(''event_type'', JStr ''PAYMENT.CAPTURE.COMPLETED'')])
          ''https://api.paypal.com/cert.pem'' ''69cd13f0'' ''2023-11-14T22:13:20Z'' ''kXpD8nA=='' start)"
    unfolding verifyWebhookSignature_true_iff_success using off by blast
  moreover have "fst (verifyWebhookSignature working ''WH-2WR32451HC0233532'' (JObj [(''event_type'', JStr ''PAYMENT.CAPTURE.COMPLETED'')])
          ''https://api.paypal.com/cert.pem'' ''69cd13f0'' ''2023-11-14T22:13:20Z'' ''kXpD8nA=='' start)"
    by (simp add: world_defs token_defs verify_defs)
  moreover have "\<not> fst (verifyWebhookSignature unverified ''WH-2WR32451HC0233532'' (JObj [(''event_type'', JStr ''PAYMENT.CAPTURE.COMPLETED'')])
          ''https://api.paypal.com/cert.pem'' ''69cd13f0'' ''2023-11-14T22:13:20Z'' ''kXpD8nA=='' start)"
    by (simp add: unverified_def world_defs token_defs verify_defs)
  ultimately show ?thesis by simp
qed

section \<open>Risk check: properties\<close>

text \<open>
  Claim C8. For every amount that \<^verbatim>\<open>parseFloat\<close> reads as a number \<open>a\<close> with
  \<open>0 < a \<le> 10\<close>, \<^verbatim>\<open>callRiskAPI\<close> returns \<^verbatim>\<open>true\<close> without drawing a random number:
  the state is unchanged, and the result is the same whatever \<^verbatim>\<open>Math.random\<close> would give.
\<close>

theorem callRiskAPI_small_amount_approved:
  assumes "parseFloat e amount = Num a" and "0 < a" and "a \<le> 10"
  shows "callRiskAPI e orderID amount s = (True, s)
       \<and> (\<forall>rnd. callRiskAPI (e\<lparr>Math_random := rnd\<rparr>) orderID amount s = (True, s))"
  using assms by (simp add: callRiskAPI_def)

theorem callRiskAPI_small_amount_approved_witness:
  "parseFloat working ''10.00'' = Num 10
   \<and> callRiskAPI working (JStr ''5O190127TN364715T'') ''10.00'' start = (True, start)
   \<and> callRiskAPI (working\<lparr>Math_random := (\<lambda>n. 0)\<rparr>) (JStr ''5O190127TN364715T'') ''10.00'' start
       = (True, start)"
proof -
  have p: "parseFloat working ''10.00'' = Num 10"
    by (simp add: working_def decimal_number_def is_digit_def digits_val_def)
  from callRiskAPI_small_amount_approved [OF p, of "JStr ''5O190127TN364715T''" start] p
  show ?thesis by simp
qed

section \<open>The create-order route: properties\<close>


lemma cancelPayPalOrder_with_token:
  "getAccessToken e s = (Inr accessToken, s1) \<Longrightarrow>
   cancelPayPalOrder e order_id s = s1\<lparr>fetches := fetches s1 @ [OrderCancelRequest accessToken order_id]\<rparr>"
  by (simp add: cancelPayPalOrder_def cancelAttempt_def do_fetch_def split: sum.splits)







lemma POST_create_order_answer:
  "POST_create_order e request_json s = answer_of (createOrderRoute e request_json s)"
  by (simp add: POST_create_order_def answer_of_def)


lemma snd_answer_of [simp]: "snd (answer_of r) = snd r"
  by (cases r) (auto simp: answer_of_def split: sum.splits)




lemma opt_prop_defined: "opt_prop body name \<noteq> JUndefined \<Longrightarrow> \<exists>props. body = JObj props"
  by (cases body) auto

lemma destructure_object:
  "destructure (JObj props) =
     Inr (opt_prop (JObj props) ''amount'', currency_of (JObj props),
          opt_prop (JObj props) ''email'', opt_prop (JObj props) ''description'')"
  by (simp add: destructure_def currency_of_def)

lemma createOrderRoute_passes:
  assumes "truthy (opt_prop body ''amount'')"
    and "ToString e (opt_prop body ''amount'') = Inr amount_text"
    and "ToString e (currency_of body) = Inr currency_text"
    and "ToString e (opt_prop body ''email'') = Inr email_text"
    and "amount_pattern amount_text"
    and "\<not> truthy (opt_prop body ''email'') \<or> includes_at (opt_prop body ''email'') = Inr True"
  shows "createOrderRoute e (Inr body) s =
     createAndAssess e (opt_prop body ''amount'') amount_text (currency_of body)
       (opt_prop body ''email'') (opt_prop body ''description'') s"
proof -
  from assms(1) obtain props where b: "body = JObj props"
    using opt_prop_defined [of body "''amount''"] by (cases "opt_prop body ''amount''") auto
  from assms show ?thesis
    unfolding b createOrderRoute_def
    by (auto simp: destructure_object validateAndCreate_def log_line_def)
qed

subsection \<open>Risk denial\<close>

text \<open>
  Claim C3. When a request passes the validation, the order is created and the risk check
  denies it, the route calls \<^verbatim>\<open>cancelPayPalOrder\<close> for that order id and answers
  \<^verbatim>\<open>{success: false, error}\<close> with status 403, where validation failures are answered
  with 400. The answer does not depend on how the cancellation goes: nothing is assumed
  of it. The cancellation sends its request for that order id whenever it has a token.
  Passing the validation is: a truthy amount whose string matches the pattern, a log line
  that does not throw, and an email that is falsy or includes an \<^verbatim>\<open>@\<close>.
\<close>

theorem risk_denial_cancels_and_answers_403:
  assumes "truthy (opt_prop body ''amount'')"
    and "ToString e (opt_prop body ''amount'') = Inr amount_text"
    and "ToString e (currency_of body) = Inr currency_text"
    and "ToString e (opt_prop body ''email'') = Inr email_text"
    and "amount_pattern amount_text"
    and "\<not> truthy (opt_prop body ''email'') \<or> includes_at (opt_prop body ''email'') = Inr True"
    and "createPayPalOrder e (opt_prop body ''amount'') (currency_of body)
           (opt_prop body ''email'') (opt_prop body ''description'') s = (Inr order_id, s1)"
    and "callRiskAPI e order_id amount_text s1 = (False, s2)"
  shows "POST_create_order e (Inr body) s =
           ((JObj [(''success'', JBool False),
                   (''error'', JStr ''Transaction not approved due to risk assessment'')], 403),
            cancelPayPalOrder e order_id s2)
       \<and> (\<forall>accessToken s3. getAccessToken e s2 = (Inr accessToken, s3) \<longrightarrow>
             fetches (cancelPayPalOrder e order_id s2)
               = fetches s3 @ [OrderCancelRequest accessToken order_id])"
proof -
  have "POST_create_order e (Inr body) s =
          answer_of (createAndAssess e (opt_prop body ''amount'') amount_text (currency_of body)
             (opt_prop body ''email'') (opt_prop body ''description'') s)"
    using createOrderRoute_passes [OF assms(1-6)]
    by (simp add: POST_create_order_answer)
  also have "\<dots> = (riskRejected, cancelPayPalOrder e order_id s2)"
    using assms(7,8) by (simp add: createAndAssess_def answer_of_def)
  finally show ?thesis
    by (simp add: riskRejected_def failure_def cancelPayPalOrder_with_token)
qed

lemmas create_defs = POST_create_order_def createOrderRoute_def destructure_def
  validateAndCreate_def log_line_def createAndAssess_def
  createPayPalOrder_def createOrderAttempt_def callRiskAPI_def random_def
  cancelPayPalOrder_def cancelAttempt_def do_fetch_def amount_pattern_def is_digit_def
  order_description_def order_payer_def riskRejected_def failure_def currency_of_def

text \<open>
  An order of 500.00 in a world whose random draw denies it and whose cancel endpoint
  cannot be reached: the answer is the 403, and the cancel request was sent.
\<close>

theorem risk_denial_cancels_and_answers_403_witness:
  "fst (POST_create_order cancelFails (Inr largeOrder) start) =
     (JObj [(''success'', JBool False),
            (''error'', JStr ''Transaction not approved due to risk assessment'')], 403)
   \<and> fetches (snd (POST_create_order cancelFails (Inr largeOrder) start)) =
       [TokenRequest ''AYclientid'' ''EKsecret'',
        OrderCreateRequest (JStr ''A21AAFEpH4PsADK7qSS7pSRsgz'') (JStr ''500.00'') (JStr ''USD'')
          (JStr ''Payment from buyer@example.com'')
          (JObj [(''email_address'', JStr ''buyer@example.com'')]),
        OrderCancelRequest (JStr ''A21AAFEpH4PsADK7qSS7pSRsgz'') (JStr ''5O190127TN364715T'')]"
proof -
  let ?created = "createPayPalOrder cancelFails (JStr ''500.00'') (JStr ''USD'')
                    (JStr ''buyer@example.com'') JUndefined start"
  let ?risk = "callRiskAPI cancelFails (JStr ''5O190127TN364715T'') ''500.00'' (snd ?created)"
  have a: "truthy (opt_prop largeOrder ''amount'')"
    and b: "ToString cancelFails (opt_prop largeOrder ''amount'') = Inr ''500.00''"
    and c: "ToString cancelFails (currency_of largeOrder) = Inr ''USD''"
    and d: "ToString cancelFails (opt_prop largeOrder ''email'') = Inr ''buyer@example.com''"
    and f: "\<not> truthy (opt_prop largeOrder ''email'')
            \<or> includes_at (opt_prop largeOrder ''email'') = Inr True"
    by (simp_all add: largeOrder_def currency_of_def)
  have p: "amount_pattern ''500.00''" by (simp add: amount_pattern_def is_digit_def)
  have g1: "fst ?created = Inr (JStr ''5O190127TN364715T'')"
    by (simp add: cancelFails_def world_defs token_defs create_defs)
  have g: "createPayPalOrder cancelFails (opt_prop largeOrder ''amount'') (currency_of largeOrder)
             (opt_prop largeOrder ''email'') (opt_prop largeOrder ''description'') start
           = (Inr (JStr ''5O190127TN364715T''), snd ?created)"
    using g1 by (simp add: largeOrder_def currency_of_def prod_eq_iff)
  have h1: "fst ?risk = False"
    by (simp add: callRiskAPI_def random_def cancelFails_def working_def decimal_number_def
          is_digit_def digits_val_def)
  have h: "?risk = (False, snd ?risk)"
    using h1 by (simp add: prod_eq_iff)
  have i: "fetches (cancelPayPalOrder cancelFails (JStr ''5O190127TN364715T'') (snd ?risk)) =
       [TokenRequest ''AYclientid'' ''EKsecret'',
        OrderCreateRequest (JStr ''A21AAFEpH4PsADK7qSS7pSRsgz'') (JStr ''500.00'') (JStr ''USD'')
          (JStr ''Payment from buyer@example.com'')
          (JObj [(''email_address'', JStr ''buyer@example.com'')]),
        OrderCancelRequest (JStr ''A21AAFEpH4PsADK7qSS7pSRsgz'') (JStr ''5O190127TN364715T'')]"
    by (simp add: cancelFails_def world_defs token_defs create_defs decimal_number_def
          digits_val_def)
  from risk_denial_cancels_and_answers_403 [OF a b c d p f g h] i
  show ?thesis by simp
qed

subsection \<open>Validation\<close>





section \<open>The webhook route: properties\<close>

lemma webhookRoute_missing:
  "\<not> four_headers request \<Longrightarrow> webhookRoute e request s = (Inr missingHeaders, s)"
  by (auto simp: webhookRoute_def four_headers_def missingHeaders_def Let_def)

lemma webhookRoute_auth_algorithm:
  "webhookRoute e (request\<lparr>headers := (headers request)(''paypal-auth-algorithm'' := h)\<rparr>) s
     = webhookRoute e request s"
  by (simp add: webhookRoute_def Let_def)

lemmas webhook_defs = POST_webhook_def webhookRoute_def dispatchEvent_def
  handled_event_types_def verifyWebhookSignature_def verifyAttempt_def do_fetch_def
  signedHeaders_def captureCompletedEvent_def noAuthAlgorithm_def noSignature_def

text \<open>
  Claim C2 says that a request lacking any one of the five transmission headers is rejected
  without a call of the verification endpoint. The route reads five headers and tests
  four: a request without \<^verbatim>\<open>paypal-auth-algorithm\<close> is verified and answered 200.
\<close>

theorem webhook_without_auth_algorithm_counterexample:
  "headers noAuthAlgorithm ''paypal-auth-algorithm'' = None
   \<and> fst (POST_webhook working noAuthAlgorithm start) = (JObj [(''success'', JBool True)], 200)
   \<and> fetches (snd (POST_webhook working noAuthAlgorithm start))
       = [TokenRequest ''AYclientid'' ''EKsecret'',
          WebhookVerifyRequest (JStr ''A21AAFEpH4PsADK7qSS7pSRsgz'') ''WH-2WR32451HC0233532''
            captureCompletedEvent
            ''https://api.paypal.com/v1/notifications/certs/CERT-360caa42''
            ''69cd13f0-d67a-11e5-baa3-778b53f4ae55'' ''2023-11-14T22:13:20Z''
            ''kXpD8nAw9ZkqA5dq0lYyqH8nA=='']"
  by (simp add: webhook_defs world_defs token_defs)

text \<open>
  Claim C2, amended. A request in which any one of the four headers
  \<^verbatim>\<open>paypal-transmission-id\<close>, \<^verbatim>\<open>paypal-transmission-time\<close>, \<^verbatim>\<open>paypal-cert-url\<close> and
  \<^verbatim>\<open>paypal-transmission-sig\<close> is absent or empty is answered 400 with
  \<^verbatim>\<open>Missing webhook headers\<close> and no outbound call at all is made; an outbound call, and
  so the verification, happens only when all four are present; and the fifth header,
  \<^verbatim>\<open>paypal-auth-algorithm\<close>, changes nothing, present or absent.
\<close>

theorem webhook_missing_header_rejected:
  "(\<not> truthy_str (headers request ''paypal-transmission-id'')
      \<or> \<not> truthy_str (headers request ''paypal-transmission-time'')
      \<or> \<not> truthy_str (headers request ''paypal-cert-url'')
      \<or> \<not> truthy_str (headers request ''paypal-transmission-sig'')
    \<longrightarrow> POST_webhook e request s
          = ((JObj [(''error'', JStr ''Missing webhook headers'')], 400), s))
   \<and> (fetches (snd (POST_webhook e request s)) \<noteq> fetches s \<longrightarrow> four_headers request)
   \<and> (\<forall>h. POST_webhook e (request\<lparr>headers := (headers request)(''paypal-auth-algorithm'' := h)\<rparr>) s
          = POST_webhook e request s)"
proof (intro conjI allI impI)
  assume "\<not> truthy_str (headers request ''paypal-transmission-id'')
      \<or> \<not> truthy_str (headers request ''paypal-transmission-time'')
      \<or> \<not> truthy_str (headers request ''paypal-cert-url'')
      \<or> \<not> truthy_str (headers request ''paypal-transmission-sig'')"
  then have "\<not> four_headers request"
    by (auto simp: four_headers_def)
  then show "POST_webhook e request s
          = ((JObj [(''error'', JStr ''Missing webhook headers'')], 400), s)"
    by (simp add: POST_webhook_def webhookRoute_missing missingHeaders_def)
next
  assume "fetches (snd (POST_webhook e request s)) \<noteq> fetches s"
  then show "four_headers request"
    by (rule contrapos_np) (simp add: POST_webhook_def webhookRoute_missing)
next
  fix h
  show "POST_webhook e (request\<lparr>headers := (headers request)(''paypal-auth-algorithm'' := h)\<rparr>) s
          = POST_webhook e request s"
    by (simp only: POST_webhook_def webhookRoute_auth_algorithm)
qed

text \<open>
  A request without its signature header is rejected and leaves the state as it was; the
  request without \<^verbatim>\<open>paypal-auth-algorithm\<close> has the four headers, and adding the fifth
  does not change its outcome.
\<close>

theorem webhook_missing_header_rejected_witness:
  "\<not> truthy_str (headers noSignature ''paypal-transmission-sig'')
   \<and> POST_webhook working noSignature start
       = ((JObj [(''error'', JStr ''Missing webhook headers'')], 400), start)
   \<and> four_headers noAuthAlgorithm
   \<and> POST_webhook working
        (noAuthAlgorithm\<lparr>headers := (headers noAuthAlgorithm)
           (''paypal-auth-algorithm'' := Some ''SHA256withRSA'')\<rparr>) start
       = POST_webhook working noAuthAlgorithm start"
proof -
  have m: "\<not> truthy_str (headers noSignature ''paypal-transmission-sig'')"
    by (simp add: noSignature_def signedHeaders_def)
  have f: "fetches (snd (POST_webhook working noAuthAlgorithm start)) \<noteq> fetches start"
    by (simp add: webhook_defs world_defs token_defs)
  note t = webhook_missing_header_rejected [of noSignature working start]
    and u = webhook_missing_header_rejected [of noAuthAlgorithm working start]
  from t m have "POST_webhook working noSignature start
       = ((JObj [(''error'', JStr ''Missing webhook headers'')], 400), start)"
    by blast
  moreover from u f have "four_headers noAuthAlgorithm"
    by blast
  moreover from u have "POST_webhook working
        (noAuthAlgorithm\<lparr>headers := (headers noAuthAlgorithm)
           (''paypal-auth-algorithm'' := Some ''SHA256withRSA'')\<rparr>) start
       = POST_webhook working noAuthAlgorithm start"
    by blast
  ultimately show ?thesis using m by simp
qed

end
